theory Spec2Isabelle
  imports Main "HOL-Library.Word"
begin

section \<open>JavaScript values\<close>

text \<open>
  A JavaScript string is a sequence of UTF-16 code units. String literals of the
  sources are ASCII; \<open>lit\<close> turns an ASCII literal into its code units.
\<close>

type_synonym code_unit = "16 word"
type_synonym js_string = "code_unit list"

definition lit :: "string \<Rightarrow> js_string" where
  "lit s = map of_char s"

text \<open>
  An optional prop is an \<open>option\<close>: \<open>None\<close> is \<open>undefined\<close>. Truthiness is the one of
  JavaScript: \<open>undefined\<close>, \<open>false\<close>, \<open>0\<close>, \<open>NaN\<close> and the empty string are falsy.
\<close>

definition truthy_bool :: "bool option \<Rightarrow> bool" where
  "truthy_bool b = (b = Some True)"

definition truthy_string :: "js_string option \<Rightarrow> bool" where
  "truthy_string s = (case s of None \<Rightarrow> False | Some t \<Rightarrow> t \<noteq> [])"

text \<open>
  A number value, as the conversion of numbers to strings of ECMAScript sees it: \<open>NaN\<close>,
  zero (of either sign), an infinity, or a finite number \<open>s \<times> 10^(n - k)\<close> or its negative,
  where the \<open>k\<close> decimal digits of \<open>s\<close> are the digits of the shortest decimal that reads
  back as the number. So \<open>3\<close> is \<open>Decimal False 3 1\<close>, \<open>1.5\<close> is \<open>Decimal False 15 1\<close>, and
  \<open>2^60\<close>, whose shortest decimal is \<open>1152921504606847000\<close>, is
  \<open>Decimal False 1152921504606847 19\<close>. Every number value has one such form, and in it
  \<open>s\<close> has at most 17 digits and no zero at its end, and \<open>n\<close> lies between \<open>-323\<close> and
  \<open>309\<close>. The type holds these forms; not each of them is a number value, so that what
  holds for all of the type holds for all numbers.
\<close>

datatype number_rep = NotANumber | Zero | Decimal bool nat int | Infinite bool

definition is_number :: "number_rep \<Rightarrow> bool" where
  "is_number r =
     (case r of
        Decimal negative s n \<Rightarrow> 0 < s \<and> s < 10 ^ 17 \<and> s mod 10 \<noteq> 0 \<and> - 324 < n \<and> n < 310
      | _ \<Rightarrow> True)"

typedef js_number = "{r. is_number r}"
  by (rule exI [of _ Zero]) (simp add: is_number_def)

definition truthy_number :: "js_number option \<Rightarrow> bool" where
  "truthy_number n =
     (case n of
        None \<Rightarrow> False
      | Some k \<Rightarrow> Rep_js_number k \<noteq> NotANumber \<and> Rep_js_number k \<noteq> Zero)"

definition is_positive :: "js_number \<Rightarrow> bool" where
  "is_positive k =
     (case Rep_js_number k of
        Decimal negative s n \<Rightarrow> \<not> negative
      | Infinite negative \<Rightarrow> \<not> negative
      | _ \<Rightarrow> False)"

text \<open>The decimal digits of a natural number.\<close>

fun digits :: "nat \<Rightarrow> js_string" where
  "digits n = (if n < 10 then [0x30 + of_nat n]
               else digits (n div 10) @ [0x30 + of_nat (n mod 10)])"

declare digits.simps [simp del]

text \<open>
  The string of a positive finite number, by the rules of \<open>Number::toString\<close>: for the
  digits of \<open>s\<close>, \<open>k\<close> of them, and the position \<open>n\<close> of the point, the digits followed by
  zeros when \<open>k \<le> n \<le> 21\<close>; the digits with a point after the first \<open>n\<close> when
  \<open>0 < n \<le> 21\<close>; \<open>0.\<close>, zeros and the digits when \<open>-6 < n \<le> 0\<close>; and the exponent
  notation otherwise.
\<close>

definition decimal_string :: "nat \<Rightarrow> int \<Rightarrow> js_string" where
  "decimal_string s n =
     (let ds = digits s; k = int (length ds) in
      if k \<le> n \<and> n \<le> 21 then ds @ replicate (nat (n - k)) 0x30
      else if 0 < n \<and> n \<le> 21 then take (nat n) ds @ lit ''.'' @ drop (nat n) ds
      else if - 6 < n \<and> n \<le> 0 then lit ''0.'' @ replicate (nat (- n)) 0x30 @ ds
      else (if k = 1 then ds else take 1 ds @ lit ''.'' @ drop 1 ds)
           @ lit ''e'' @ (if 0 \<le> n - 1 then lit ''+'' else lit ''-'')
           @ digits (nat \<bar>n - 1\<bar>))"

definition number_string :: "number_rep \<Rightarrow> js_string" where
  "number_string r =
     (case r of
        NotANumber \<Rightarrow> lit ''NaN''
      | Zero \<Rightarrow> lit ''0''
      | Infinite negative \<Rightarrow> (if negative then lit ''-'' else []) @ lit ''Infinity''
      | Decimal negative s n \<Rightarrow> (if negative then lit ''-'' else []) @ decimal_string s n)"

text \<open>What a template literal \<open>`${n}`\<close> yields for a number.\<close>

definition number_to_string :: "js_number \<Rightarrow> js_string" where
  "number_to_string k = number_string (Rep_js_number k)"

definition template_number :: "js_number option \<Rightarrow> js_string" where
  "template_number n = (case n of None \<Rightarrow> lit ''undefined'' | Some k \<Rightarrow> number_to_string k)"

text \<open>The number zero, and the numbers \<open>1\<close> to \<open>9\<close>, for the literals of the sources.\<close>

definition number_zero :: js_number where
  "number_zero = Abs_js_number Zero"

definition digit_number :: "nat \<Rightarrow> js_number" where
  "digit_number d = Abs_js_number (Decimal False d 1)"

text \<open>A destructuring default \<open>{ x = d } = obj\<close>: the default stands in for \<open>undefined\<close> only.\<close>

definition or_default :: "'a option \<Rightarrow> 'a option \<Rightarrow> 'a option" where
  "or_default v d = (case v of None \<Rightarrow> d | Some x \<Rightarrow> Some x)"


section \<open>Class names\<close>

text \<open>
  \<open>cn\<close> is the \<open>classnames\<close> package at the arguments the components give it here,
  strings or \<open>undefined\<close>: the falsy arguments are dropped and the others joined by
  single spaces.
\<close>

fun join_space :: "js_string list \<Rightarrow> js_string" where
  "join_space [] = []"
| "join_space [x] = x"
| "join_space (x # y # ys) = x @ lit '' '' @ join_space (y # ys)"

definition cn :: "js_string option list \<Rightarrow> js_string" where
  "cn args = join_space [s. Some s \<leftarrow> args, s \<noteq> []]"

text \<open>A modifier object: the list of its keys, each with the truthiness of its value.\<close>

type_synonym bem_modifier = "(js_string \<times> bool) list"

text \<open>
  Modelled from the spec: \<open>modify\<close>, the helper of \<open>bem\<close>, is not among the sources.
  It puts after a name one token \<open>name--modifier\<close> for every modifier key whose value
  is truthy, in the order of the keys: for the \<open>colSpan=3\<close> of the spec, a "token
  reflecting span 3".
\<close>

definition modify :: "js_string \<Rightarrow> bem_modifier \<Rightarrow> js_string" where
  "modify base modifier =
     foldl (\<lambda>s (md, on). if on then s @ lit '' '' @ base @ lit ''--'' @ md else s) base modifier"

text \<open>The first argument of a block function: the name of an element, or a modifier object.\<close>

datatype bem_arg = BemElement js_string | BemModifier bem_modifier

text \<open>
  Modelled from the spec: \<open>bem\<close> (imported from \<open>../css/bem\<close> and \<open>@react-md/theme\<close>)
  is not among the sources. It builds the class names of a block in the
  block-element-modifier convention (the "CSS class composition" of the spec, with its
  "token reflecting span 3"): \<open>bem block\<close> is a function that returns the name of the
  block, or \<open>block__element\<close> when it is given an element, with the modifiers put after it.
\<close>

definition bem :: "js_string \<Rightarrow> bem_arg option \<Rightarrow> bem_modifier option \<Rightarrow> js_string" where
  "bem base elementOrModifier modifier =
     (case elementOrModifier of
        None \<Rightarrow> base
      | Some (BemModifier m) \<Rightarrow> modify base m
      | Some (BemElement e) \<Rightarrow>
          if e = [] then base
          else (case modifier of
                  None \<Rightarrow> base @ lit ''__'' @ e
                | Some m \<Rightarrow> modify (base @ lit ''__'' @ e) m))"

text \<open>
  The class list of an element is its \<open>className\<close> split at ASCII whitespace, as the
  DOM's \<open>classList\<close> does.
\<close>

definition is_ascii_whitespace :: "code_unit \<Rightarrow> bool" where
  "is_ascii_whitespace c \<longleftrightarrow> c = 0x09 \<or> c = 0x0A \<or> c = 0x0C \<or> c = 0x0D \<or> c = 0x20"

fun split_tokens :: "js_string \<Rightarrow> js_string \<Rightarrow> js_string list" where
  "split_tokens acc [] = (if acc = [] then [] else [acc])"
| "split_tokens acc (c # cs) =
     (if is_ascii_whitespace c
      then (if acc = [] then split_tokens [] cs else acc # split_tokens [] cs)
      else split_tokens (acc @ [c]) cs)"

definition class_list :: "js_string \<Rightarrow> js_string list" where
  "class_list s = split_tokens [] s"


section \<open>GridCell\<close>

text \<open>A value typed \<open>number | string\<close>.\<close>

datatype number_or_string = Num js_number | Str js_string

text \<open>
  An object of style properties: a key that is absent maps to \<open>None\<close>, a key that is
  present with the value \<open>undefined\<close> to \<open>Some None\<close>. Spreading \<open>{...a, ...b}\<close> is
  \<open>a ++ b\<close>, and spreading \<open>undefined\<close> adds nothing.
\<close>

type_synonym css_properties = "js_string \<rightharpoonup> number_or_string option"

definition spread :: "css_properties option \<Rightarrow> css_properties" where
  "spread s = (case s of None \<Rightarrow> Map.empty | Some m \<Rightarrow> m)"

record grid_css_properties =
  rowSpan :: "js_number option"
  rowStart :: "number_or_string option"
  rowEnd :: "number_or_string option"
  colStart :: "number_or_string option"
  colEnd :: "number_or_string option"

datatype element_type = HostElement js_string | Component js_string

text \<open>
  A React element: its type, the props the components here read or write, its ref and
  its other props (children among them), which the components pass on untouched.
\<close>

record ('ref, 'other) element =
  element_type :: element_type
  element_style :: "css_properties option"
  element_className :: "js_string option"
  element_ref :: "'ref option"
  element_props :: 'other

text \<open>
  The children of a cell: a single element, for which \<open>isValidElement\<close> holds, or any
  other node (text, a list of nodes, nothing).
\<close>

datatype ('e, 'n) react_node = SingleElement 'e | OtherNode 'n

record ('ref, 'other, 'n) grid_cell_props = grid_css_properties +
  style :: "css_properties option"
  className :: "js_string option"
  clone :: "bool option"
  forwardedRef :: "'ref option"
  children :: "(('ref, 'other) element, 'n) react_node"
  colSpan :: "js_number option"
  phone :: "grid_css_properties option"
  tablet :: "grid_css_properties option"
  desktop :: "grid_css_properties option"
  largeDesktop :: "grid_css_properties option"
  props :: 'other

text \<open>The value of \<open>useAppSizeContext()\<close>, of which the cell reads four flags.\<close>

record app_size =
  isPhone :: bool
  isTablet :: bool
  isDesktop :: bool
  isLargeDesktop :: bool

definition grid_block :: "bem_arg option \<Rightarrow> bem_modifier option \<Rightarrow> js_string" where
  "grid_block = bem (lit ''rmd-grid'')"

text \<open>
  \<open>(isPhone && phone) || (isTablet && tablet) || (isDesktop && desktop) ||
  (isLargeDesktop && largeDesktop)\<close>: an override object is truthy whatever its fields.
\<close>

definition media :: "'z app_size_scheme \<Rightarrow> ('ref, 'other, 'n, 'y) grid_cell_props_scheme
    \<Rightarrow> grid_css_properties option" where
  "media ctx p =
     (if isPhone ctx \<and> phone p \<noteq> None then phone p
      else if isTablet ctx \<and> tablet p \<noteq> None then tablet p
      else if isDesktop ctx \<and> desktop p \<noteq> None then desktop p
      else if isLargeDesktop ctx \<and> largeDesktop p \<noteq> None then largeDesktop p
      else None)"

text \<open>The five layout values after the override, if any, has been read with the props as defaults.\<close>

definition resolved :: "'z app_size_scheme \<Rightarrow> ('ref, 'other, 'n, 'y) grid_cell_props_scheme
    \<Rightarrow> grid_css_properties" where
  "resolved ctx p =
     (case media ctx p of
        None \<Rightarrow> \<lparr>rowSpan = rowSpan p, rowStart = rowStart p, rowEnd = rowEnd p,
                  colStart = colStart p, colEnd = colEnd p\<rparr>
      | Some m \<Rightarrow> \<lparr>rowSpan = or_default (rowSpan m) (rowSpan p),
                    rowStart = or_default (rowStart m) (rowStart p),
                    rowEnd = or_default (rowEnd m) (rowEnd p),
                    colStart = or_default (colStart m) (colStart p),
                    colEnd = or_default (colEnd m) (colEnd p)\<rparr>)"

definition cellStyle :: "'z app_size_scheme \<Rightarrow> ('ref, 'other, 'n, 'y) grid_cell_props_scheme
    \<Rightarrow> css_properties" where
  "cellStyle ctx p =
     (let r = resolved ctx p in
      [lit ''gridColumnStart'' \<mapsto> colStart r,
       lit ''gridColumnEnd'' \<mapsto> colEnd r,
       lit ''gridRowStart'' \<mapsto> rowStart r,
       lit ''gridRowEnd'' \<mapsto>
         (if truthy_number (rowSpan r)
          then Some (Str (lit ''span '' @ template_number (rowSpan r)))
          else rowEnd r)]
      ++ spread (style p))"

definition cellClassName :: "('ref, 'other, 'n, 'y) grid_cell_props_scheme \<Rightarrow> js_string" where
  "cellClassName p =
     cn [Some (grid_block (Some (BemElement (lit ''cell'')))
                 (Some [(template_number (colSpan p), truthy_number (colSpan p))])),
         className p]"

text \<open>
  The cell renders its only child with the style and the class name merged into the
  child's own, when \<open>clone\<close> is set and the children are one element, and a \<open>div\<close>
  around the children otherwise.
\<close>

datatype ('ref, 'other, 'n) grid_cell_result =
    CloneElement "('ref, 'other) element"
  | DivElement "('ref, 'other \<times> (('ref, 'other) element, 'n) react_node) element"

definition GridCell :: "'z app_size_scheme \<Rightarrow> ('ref, 'other, 'n) grid_cell_props
    \<Rightarrow> ('ref, 'other, 'n) grid_cell_result" where
  "GridCell ctx p =
     (case (truthy_bool (clone p), children p) of
        (True, SingleElement child) \<Rightarrow>
          CloneElement (child\<lparr>
            element_style := Some (spread (element_style child) ++ cellStyle ctx p),
            element_className := Some (cn [Some (cellClassName p), element_className child])\<rparr>)
      | _ \<Rightarrow>
          DivElement \<lparr>
            element_type = HostElement (lit ''div''),
            element_style = Some (cellStyle ctx p),
            element_className = Some (cellClassName p),
            element_ref = forwardedRef p,
            element_props = (props p, children p)\<rparr>)"

definition rendered_class_list :: "('ref, 'other, 'n) grid_cell_result \<Rightarrow> js_string list" where
  "rendered_class_list r =
     (case r of
        CloneElement e \<Rightarrow> (case element_className e of None \<Rightarrow> [] | Some s \<Rightarrow> class_list s)
      | DivElement e \<Rightarrow> (case element_className e of None \<Rightarrow> [] | Some s \<Rightarrow> class_list s))"

definition result_type :: "('ref, 'other, 'n) grid_cell_result \<Rightarrow> element_type" where
  "result_type r = (case r of CloneElement e \<Rightarrow> element_type e | DivElement e \<Rightarrow> element_type e)"

definition result_style :: "('ref, 'other, 'n) grid_cell_result \<Rightarrow> css_properties option" where
  "result_style r = (case r of CloneElement e \<Rightarrow> element_style e | DivElement e \<Rightarrow> element_style e)"

definition result_className :: "('ref, 'other, 'n) grid_cell_result \<Rightarrow> js_string option" where
  "result_className r =
     (case r of CloneElement e \<Rightarrow> element_className e | DivElement e \<Rightarrow> element_className e)"

text \<open>The value of a property in the style of the rendered element, if it has the property.\<close>

definition rendered_style :: "('ref, 'other, 'n) grid_cell_result \<Rightarrow> js_string
    \<Rightarrow> number_or_string option option" where
  "rendered_style r property = (case result_style r of None \<Rightarrow> None | Some sty \<Rightarrow> sty property)"

text \<open>The class names that reach the rendered element from outside the cell's own block.\<close>

definition supplied_classes :: "('ref, 'other, 'n) grid_cell_props \<Rightarrow> js_string list" where
  "supplied_classes p =
     (case className p of None \<Rightarrow> [] | Some s \<Rightarrow> class_list s) @
     (case (truthy_bool (clone p), children p) of
        (True, SingleElement child) \<Rightarrow>
          (case element_className child of None \<Rightarrow> [] | Some s \<Rightarrow> class_list s)
      | _ \<Rightarrow> [])"

text \<open>Inputs at which the theorems below are evaluated.\<close>

definition wide_screen :: app_size where
  "wide_screen = \<lparr>isPhone = False, isTablet = False, isDesktop = True, isLargeDesktop = False\<rparr>"

definition small_screen :: app_size where
  "small_screen = \<lparr>isPhone = True, isTablet = False, isDesktop = False, isLargeDesktop = False\<rparr>"

definition tablet_screen :: app_size where
  "tablet_screen = \<lparr>isPhone = False, isTablet = True, isDesktop = False, isLargeDesktop = False\<rparr>"

definition large_screen :: app_size where
  "large_screen = \<lparr>isPhone = False, isTablet = False, isDesktop = False, isLargeDesktop = True\<rparr>"

definition no_screen :: app_size where
  "no_screen = \<lparr>isPhone = False, isTablet = False, isDesktop = False, isLargeDesktop = False\<rparr>"

definition plain_cell :: "(unit, unit, unit) grid_cell_props" where
  "plain_cell =
     \<lparr>rowSpan = None, rowStart = None, rowEnd = None, colStart = None, colEnd = None,
      style = None, className = None, clone = None, forwardedRef = None,
      children = OtherNode (), colSpan = None, phone = None, tablet = None, desktop = None,
      largeDesktop = None, props = ()\<rparr>"

definition plain_child :: "(unit, unit) element" where
  "plain_child =
     \<lparr>element_type = HostElement (lit ''span''),
      element_style = Some [lit ''gridColumnStart'' \<mapsto> Some (Str (lit ''auto''))],
      element_className = Some (lit ''child''), element_ref = None, element_props = ()\<rparr>"

definition override :: "nat \<Rightarrow> grid_css_properties" where
  "override d =
     \<lparr>rowSpan = Some (digit_number d), rowStart = None, rowEnd = None,
      colStart = Some (Num (digit_number d)), colEnd = None\<rparr>"

definition responsive_cell :: "(unit, unit, unit) grid_cell_props" where
  "responsive_cell =
     plain_cell\<lparr>rowStart := Some (Num (digit_number 4)), colStart := Some (Num (digit_number 3)),
       colEnd := Some (Str (lit ''span 2'')),
       phone := Some (override 1), tablet := Some (override 2), desktop := Some (override 3),
       largeDesktop := Some (override 5)\<rparr>"


section \<open>FloatingLabel\<close>

text \<open>
  The props of \<open>Label\<close> that have a default in \<open>FloatingLabel\<close>, and the others
  (\<open>htmlFor\<close>, \<open>children\<close>, ...), which are handed on as they are.
\<close>

record 'other label_props =
  active :: "bool option"
  error :: "bool option"
  disabled :: "bool option"
  props :: 'other

record ('ref, 'other) floating_label_props = "'other label_props" +
  style :: "css_properties option"
  className :: "js_string option"
  forwardedRef :: "'ref option"
  underline :: "bool option"
  outline :: "bool option"
  valued :: bool
  dense :: "bool option"
  covering :: "bool option"
  leftChildren :: "bool option"
  rightChildren :: "bool option"

definition floating_label_block :: "bem_arg option \<Rightarrow> bem_modifier option \<Rightarrow> js_string" where
  "floating_label_block = bem (lit ''rmd-floating-label'')"

text \<open>\<open>FloatingLabel.defaultProps\<close>, which React puts in the place of the props left \<open>undefined\<close>.\<close>

definition default_to :: "'a \<Rightarrow> 'a option \<Rightarrow> 'a option" where
  "default_to d v = (case v of None \<Rightarrow> Some d | Some x \<Rightarrow> Some x)"

definition floating_label_defaultProps ::
    "('ref, 'other) floating_label_props \<Rightarrow> ('ref, 'other) floating_label_props" where
  "floating_label_defaultProps p =
     p\<lparr>error := default_to False (error p),
       active := default_to False (active p),
       disabled := default_to False (disabled p),
       covering := default_to False (covering p)\<rparr>"

definition isActive :: "('ref, 'other) floating_label_props \<Rightarrow> bool" where
  "isActive p = (truthy_bool (active p) \<or> valued p)"

definition floating_label_className :: "('ref, 'other) floating_label_props \<Rightarrow> js_string" where
  "floating_label_className p =
     cn [Some (floating_label_block
                 (Some (BemModifier
                    [(lit ''dense'', truthy_bool (dense p)),
                     (lit ''active'', isActive p),
                     (lit ''inactive'', valued p \<and> \<not> truthy_bool (active p)),
                     (lit ''covering'', truthy_bool (covering p)),
                     (lit ''outline-active'', isActive p \<and> truthy_bool (outline p)),
                     (lit ''underline-left-offset'',
                        isActive p \<and> truthy_bool (underline p) \<and> truthy_bool (leftChildren p))]))
                 None),
         className p]"

text \<open>The \<open>Label\<close> element that the component returns, given the props after the defaults.\<close>

definition FloatingLabel :: "('ref, 'other) floating_label_props
    \<Rightarrow> ('ref, 'other label_props) element" where
  "FloatingLabel p =
     \<lparr>element_type = Component (lit ''Label''),
      element_style = style p,
      element_className = Some (floating_label_className p),
      element_ref = forwardedRef p,
      element_props = \<lparr>active = active p, error = error p, disabled = disabled p,
                         props = label_props.props p\<rparr>\<rparr>"

definition render_FloatingLabel :: "('ref, 'other) floating_label_props
    \<Rightarrow> ('ref, 'other label_props) element" where
  "render_FloatingLabel p = FloatingLabel (floating_label_defaultProps p)"

definition label_class_list :: "('ref, 'other) element \<Rightarrow> js_string list" where
  "label_class_list e = (case element_className e of None \<Rightarrow> [] | Some s \<Rightarrow> class_list s)"

text \<open>The class names that are handed to the label in its \<open>className\<close>.\<close>

definition supplied_label_classes :: "('ref, 'other) floating_label_props \<Rightarrow> js_string list" where
  "supplied_label_classes p = (case className p of None \<Rightarrow> [] | Some s \<Rightarrow> class_list s)"

definition plain_label :: "(unit, unit) floating_label_props" where
  "plain_label =
     \<lparr>active = None, error = None, disabled = None, props = (),
      style = None, className = None, forwardedRef = None, underline = None, outline = None,
      valued = False, dense = None, covering = None, leftChildren = None,
      rightChildren = None\<rparr>"


section \<open>ConditionalPortal\<close>

text \<open>
  The target of a portal: a selector string, a function or a DOM node (each of the last
  two known by its identity), or \<open>null\<close>.
\<close>

datatype portal_into = IntoNull | IntoString js_string | IntoFunction nat | IntoObject nat

definition truthy_into :: "portal_into option \<Rightarrow> bool" where
  "truthy_into v =
     (case v of
        None \<Rightarrow> False
      | Some IntoNull \<Rightarrow> False
      | Some (IntoString s) \<Rightarrow> s \<noteq> []
      | Some _ \<Rightarrow> True)"

record 'c conditional_portal_props =
  portal :: "bool option"
  portalInto :: "portal_into option"
  portalIntoId :: "js_string option"
  visible :: bool
  children :: "'c option"

text \<open>
  What the component returns: its children themselves (\<open>None\<close> is \<open>null\<close>), or a
  \<open>Portal\<close> element around them.
\<close>

datatype 'c portal_result =
    Children "'c option"
  | Portal (into: "portal_into option") (intoId: "js_string option") (portal_visible: bool)
      (portal_children: "'c option")

definition ConditionalPortal :: "'c conditional_portal_props \<Rightarrow> 'c portal_result" where
  "ConditionalPortal p =
     (if \<not> truthy_bool (portal p) \<and> \<not> truthy_into (portalInto p)
         \<and> \<not> truthy_string (portalIntoId p)
      then Children (children p)
      else Portal (portalInto p) (portalIntoId p) (visible p) (children p))"

definition plain_portal :: "nat conditional_portal_props" where
  "plain_portal =
     \<lparr>portal = None, portalInto = None, portalIntoId = None, visible = True, children = Some 0\<rparr>"


section \<open>DemoPage\<close>

text \<open>
  The code units that \<open>\\s\<close> matches in a regular expression: the white space and
  the line terminators of ECMAScript.
\<close>

definition is_whitespace :: "code_unit \<Rightarrow> bool" where
  "is_whitespace c \<longleftrightarrow>
     c = 0x09 \<or> c = 0x0A \<or> c = 0x0B \<or> c = 0x0C \<or> c = 0x0D \<or> c = 0x20 \<or> c = 0xA0
     \<or> c = 0x1680 \<or> (0x2000 \<le> c \<and> c \<le> 0x200A) \<or> c = 0x2028 \<or> c = 0x2029
     \<or> c = 0x202F \<or> c = 0x205F \<or> c = 0x3000 \<or> c = 0xFEFF"

text \<open>
  \<open>font.replace(/\\s+/g, "+")\<close>: from left to right, the longest run of white space
  that starts at the current position is replaced by one \<open>+\<close>; any other code unit
  is copied.
\<close>

function replace_whitespace :: "js_string \<Rightarrow> js_string" where
  "replace_whitespace [] = []"
| "replace_whitespace (c # cs) =
     (if is_whitespace c then lit ''+'' @ replace_whitespace (dropWhile is_whitespace cs)
      else c # replace_whitespace cs)"
  by pat_completeness auto
termination
  by (relation "measure length") (auto simp: length_dropWhile_le less_Suc_eq_le)

record link =
  key :: js_string
  rel :: js_string
  href :: js_string

definition font_href :: "js_string \<Rightarrow> js_string" where
  "font_href font =
     (if font = lit ''Font Awesome''
      then lit ''https://cdnjs.cloudflare.com/ajax/libs/font-awesome/4.6.3/css/font-awesome.min.css''
      else lit ''https://fonts.googleapis.com/css2?family='' @ replace_whitespace font
           @ lit ''&display=swap'')"

definition font_link :: "js_string \<Rightarrow> link" where
  "font_link font = \<lparr>key = font, rel = lit ''stylesheet'', href = font_href font\<rparr>"

text \<open>The children of \<open>Head\<close> in the page: \<open>fonts\<close> is the empty list when it is not given.\<close>

definition DemoPage_head :: "js_string list option \<Rightarrow> link list" where
  "DemoPage_head fonts = map font_link (case fonts of None \<Rightarrow> [] | Some fs \<Rightarrow> fs)"

text \<open>
  The claim's own words, for comparison: the name is cut into its maximal runs of white
  space and of other code units, and every run of white space becomes one \<open>+\<close>.
\<close>

function runs :: "js_string \<Rightarrow> js_string list" where
  "runs [] = []"
| "runs (c # cs) =
     (c # takeWhile (\<lambda>d. is_whitespace d = is_whitespace c) cs)
     # runs (dropWhile (\<lambda>d. is_whitespace d = is_whitespace c) cs)"
  by pat_completeness auto
termination
  by (relation "measure length") (auto simp: length_dropWhile_le less_Suc_eq_le)

definition plus_for_runs :: "js_string \<Rightarrow> js_string" where
  "plus_for_runs name =
     concat (map (\<lambda>r. case r of [] \<Rightarrow> [] | d # _ \<Rightarrow> if is_whitespace d then lit ''+'' else r)
               (runs name))"


section \<open>Module evaluation: display names and prop types\<close>

text \<open>
  What a module sees when it is evaluated: \<open>process.env.NODE_ENV\<close>, and \<open>require\<close>,
  which returns a module or throws.
\<close>

datatype js_error = ModuleNotFound js_string | TypeError

datatype js_module = PropTypesModule

record environment =
  NODE_ENV :: "js_string option"
  require :: "js_string \<Rightarrow> js_error + js_module"

definition production_env :: environment where
  "production_env =
     \<lparr>NODE_ENV = Some (lit ''production''), require = (\<lambda>name. Inr PropTypesModule)\<rparr>"

definition development_env :: environment where
  "development_env =
     \<lparr>NODE_ENV = Some (lit ''development''),
      require = (\<lambda>name. if name = lit ''prop-types'' then Inr PropTypesModule
                         else Inl (ModuleNotFound name))\<rparr>"

definition bare_development_env :: environment where
  "bare_development_env =
     \<lparr>NODE_ENV = Some (lit ''development''), require = (\<lambda>name. Inl (ModuleNotFound name))\<rparr>"

definition try_catch :: "js_error + 'a \<Rightarrow> (js_error \<Rightarrow> js_error + 'a) \<Rightarrow> js_error + 'a" where
  "try_catch body handler = (case body of Inl e \<Rightarrow> handler e | Inr v \<Rightarrow> Inr v)"

definition bind_result :: "js_error + 'a \<Rightarrow> ('a \<Rightarrow> js_error + 'b) \<Rightarrow> js_error + 'b" where
  "bind_result r f = (case r of Inl e \<Rightarrow> Inl e | Inr v \<Rightarrow> f v)"

text \<open>
  \<open>let PropTypes; try { PropTypes = require("prop-types"); } catch (e) {}\<close>: the
  variable keeps its first value, \<open>undefined\<close> or \<open>null\<close>, when \<open>require\<close> throws.
\<close>

definition require_PropTypes :: "environment \<Rightarrow> js_error + js_module option" where
  "require_PropTypes env =
     try_catch (bind_result (require env (lit ''prop-types'')) (\<lambda>m. Inr (Some m)))
       (\<lambda>e. Inr None)"

text \<open>The validators of the \<open>prop-types\<close> package that the components use.\<close>

datatype validator =
    PT_bool | PT_string | PT_number | PT_object | PT_func | PT_node
  | PT_oneOfType "validator list"
  | PT_oneOf "js_string list"
  | PT_shape "(js_string \<times> validator) list"
  | PT_isRequired validator

record statics =
  displayName :: "js_string option"
  propTypes :: "(js_string \<times> validator) list option"

definition number_or_string_type :: validator where
  "number_or_string_type = PT_oneOfType [PT_number, PT_string]"

definition gridCSSProperties :: validator where
  "gridCSSProperties = PT_shape
     [(lit ''rowSpan'', PT_number),
      (lit ''rowStart'', number_or_string_type),
      (lit ''rowEnd'', number_or_string_type),
      (lit ''colSpan'', PT_number),
      (lit ''colStart'', number_or_string_type),
      (lit ''colEnd'', number_or_string_type)]"

definition GridCell_propTypes :: "js_module \<Rightarrow> (js_string \<times> validator) list" where
  "GridCell_propTypes PropTypes =
     [(lit ''style'', PT_object),
      (lit ''className'', PT_string),
      (lit ''clone'', PT_bool),
      (lit ''rowSpan'', PT_number),
      (lit ''rowStart'', number_or_string_type),
      (lit ''rowEnd'', number_or_string_type),
      (lit ''colSpan'', PT_number),
      (lit ''colStart'', number_or_string_type),
      (lit ''colEnd'', number_or_string_type),
      (lit ''phone'', gridCSSProperties),
      (lit ''tablet'', gridCSSProperties),
      (lit ''desktop'', gridCSSProperties),
      (lit ''largeDesktop'', gridCSSProperties),
      (lit ''children'', PT_node),
      (lit ''forwardedRef'', PT_oneOfType [PT_func, PT_object])]"

definition GridCell_statics :: "environment \<Rightarrow> js_error + statics" where
  "GridCell_statics env =
     (if NODE_ENV env \<noteq> Some (lit ''production'')
      then bind_result (require_PropTypes env) (\<lambda>PropTypes.
             Inr \<lparr>displayName = Some (lit ''GridCell''),
                  propTypes = (case PropTypes of None \<Rightarrow> None
                               | Some m \<Rightarrow> Some (GridCell_propTypes m))\<rparr>)
      else Inr \<lparr>displayName = None, propTypes = None\<rparr>)"

definition FloatingLabel_propTypes :: "js_module \<Rightarrow> (js_string \<times> validator) list" where
  "FloatingLabel_propTypes PropTypes =
     [(lit ''error'', PT_bool),
      (lit ''active'', PT_bool),
      (lit ''disabled'', PT_bool),
      (lit ''covering'', PT_bool),
      (lit ''valued'', PT_isRequired PT_bool)]"

definition FloatingLabel_statics :: "environment \<Rightarrow> js_error + statics" where
  "FloatingLabel_statics env =
     (if NODE_ENV env \<noteq> Some (lit ''production'')
      then bind_result (require_PropTypes env) (\<lambda>PropTypes.
             Inr \<lparr>displayName = Some (lit ''FloatingLabel''),
                  propTypes = (case PropTypes of None \<Rightarrow> None
                               | Some m \<Rightarrow> Some (FloatingLabel_propTypes m))\<rparr>)
      else Inr \<lparr>displayName = None, propTypes = None\<rparr>)"

definition ConditionalPortal_propTypes :: "js_module \<Rightarrow> (js_string \<times> validator) list" where
  "ConditionalPortal_propTypes PropTypes =
     [(lit ''portal'', PT_bool),
      (lit ''portalInto'', PT_oneOfType [PT_string, PT_func, PT_object]),
      (lit ''portalIntoId'', PT_string),
      (lit ''visible'', PT_isRequired PT_bool),
      (lit ''children'', PT_node)]"

text \<open>\<open>ConditionalPortal\<close> sets no display name.\<close>

definition ConditionalPortal_statics :: "environment \<Rightarrow> js_error + statics" where
  "ConditionalPortal_statics env =
     (if NODE_ENV env \<noteq> Some (lit ''production'')
      then bind_result (require_PropTypes env) (\<lambda>PropTypes.
             Inr \<lparr>displayName = None,
                  propTypes = (case PropTypes of None \<Rightarrow> None
                               | Some m \<Rightarrow> Some (ConditionalPortal_propTypes m))\<rparr>)
      else Inr \<lparr>displayName = None, propTypes = None\<rparr>)"

definition Select_propTypes :: "js_module \<Rightarrow> (js_string \<times> validator) list" where
  "Select_propTypes PropTypes =
     [(lit ''id'', PT_isRequired PT_string),
      (lit ''style'', PT_object),
      (lit ''className'', PT_string),
      (lit ''labelStyle'', PT_object),
      (lit ''labelClassName'', PT_string),
      (lit ''listboxStyle'', PT_object),
      (lit ''listboxClassName'', PT_string),
      (lit ''label'', PT_node),
      (lit ''portal'', PT_bool),
      (lit ''portalInto'', PT_oneOfType [PT_string, PT_object, PT_func]),
      (lit ''portalIntoId'', PT_string),
      (lit ''labelKey'', PT_string),
      (lit ''valueKey'', PT_string),
      (lit ''getOptionId'', PT_func),
      (lit ''getOptionLabel'', PT_func),
      (lit ''getOptionValue'', PT_func),
      (lit ''getDisplayLabel'', PT_func),
      (lit ''disableLeftAddon'', PT_bool),
      (lit ''disableMovementChange'', PT_bool),
      (lit ''theme'', PT_oneOf [lit ''none'', lit ''underline'', lit ''filled'', lit ''outline'']),
      (lit ''dense'', PT_bool),
      (lit ''error'', PT_bool),
      (lit ''inline'', PT_bool),
      (lit ''readOnly'', PT_bool),
      (lit ''disabled'', PT_bool),
      (lit ''placeholder'', PT_node),
      (lit ''underlineDirection'', PT_oneOf [lit ''left'', lit ''right'']),
      (lit ''leftChildren'', PT_node),
      (lit ''rightChildren'', PT_node),
      (lit ''isLeftAddon'', PT_bool),
      (lit ''isRightAddon'', PT_bool)]"

definition Select_statics :: "environment \<Rightarrow> js_error + statics" where
  "Select_statics env =
     (if NODE_ENV env \<noteq> Some (lit ''production'')
      then bind_result (require_PropTypes env) (\<lambda>PropTypes.
             Inr \<lparr>displayName = Some (lit ''Select''),
                  propTypes = (case PropTypes of None \<Rightarrow> None
                               | Some m \<Rightarrow> Some (Select_propTypes m))\<rparr>)
      else Inr \<lparr>displayName = None, propTypes = None\<rparr>)"


section \<open>Select\<close>

text \<open>A value typed \<open>ReactNode\<close>, as far as its truthiness and the default icon need it.\<close>

datatype react_child =
    TextNode js_string
  | NumberNode js_number
  | BooleanNode bool
  | NullNode
  | ElementNode element_type "react_child list"

definition truthy_node :: "react_child option \<Rightarrow> bool" where
  "truthy_node n =
     (case n of
        None \<Rightarrow> False
      | Some (TextNode s) \<Rightarrow> s \<noteq> []
      | Some (NumberNode k) \<Rightarrow> truthy_number (Some k)
      | Some (BooleanNode b) \<Rightarrow> b
      | Some NullNode \<Rightarrow> False
      | Some (ElementNode t cs) \<Rightarrow> True)"

text \<open>An option of the list: a string or a number, or an object.\<close>

datatype 'o listbox_option = PrimitiveOption number_or_string | ObjectOption 'o

definition truthy_option :: "'o listbox_option \<Rightarrow> bool" where
  "truthy_option opt =
     (case opt of
        PrimitiveOption (Num k) \<Rightarrow> truthy_number (Some k)
      | PrimitiveOption (Str s) \<Rightarrow> s \<noteq> []
      | ObjectOption ob \<Rightarrow> True)"

text \<open>
  The props of \<open>Select\<close>, in three layers as \<open>SelectProps\<close> extends
  \<open>TextFieldContainerOptions\<close> and \<open>ListboxOptions\<close>. A prop with a question mark in
  the interface, or with a default, is an \<open>option\<close>. A callback prop is known by
  its identity \<open>'cb\<close>; a function prop that the render calls is a function.
\<close>

record text_field_container_options =
  theme :: "js_string option"
  dense :: "bool option"
  inline :: "bool option"
  error :: "bool option"
  underlineDirection :: "js_string option"
  isLeftAddon :: "bool option"
  isRightAddon :: "bool option"
  leftChildren :: "react_child option"
  rightChildren :: "react_child option"

record ('o, 'cb) listbox_options = text_field_container_options +
  portal :: "bool option"
  portalInto :: "portal_into option"
  portalIntoId :: "js_string option"
  options :: "'o listbox_option list"
  labelKey :: "js_string option"
  valueKey :: "js_string option"
  getOptionId :: "(js_string \<Rightarrow> nat \<Rightarrow> js_string) option"
  getOptionLabel :: "('o listbox_option \<Rightarrow> js_string option \<Rightarrow> react_child) option"
  getOptionValue :: "('o listbox_option \<Rightarrow> js_string option \<Rightarrow> number_or_string) option"
  disableMovementChange :: "bool option"
  "value" :: number_or_string
  onChange :: 'cb

record ('ref, 'o, 'cb, 'other) select_props = "('o, 'cb) listbox_options" +
  id :: js_string
  disabled :: "bool option"
  label :: "react_child option"
  labelStyle :: "css_properties option"
  labelClassName :: "js_string option"
  displayLabelStyle :: "css_properties option"
  displayLabelClassName :: "js_string option"
  listboxStyle :: "css_properties option"
  listboxClassName :: "js_string option"
  readOnly :: "bool option"
  placeholder :: "react_child option"
  getDisplayLabel ::
    "('o listbox_option option \<Rightarrow> js_string option \<Rightarrow> bool \<Rightarrow> react_child) option"
  disableLeftAddon :: "bool option"
  className :: "js_string option"
  forwardedRef :: "'ref option"
  onBlur :: "'cb option"
  onFocus :: "'cb option"
  onKeyDown :: "'cb option"
  onClick :: "'cb option"
  props :: 'other

text \<open>
  The default functions are imported from \<open>./utils\<close> and \<open>@react-md/utils\<close>, which
  are not among the sources: they are parameters of the model.
\<close>

record 'o select_utils =
  DEFAULT_GET_OPTION_ID :: "js_string \<Rightarrow> nat \<Rightarrow> js_string"
  DEFAULT_GET_OPTION_LABEL :: "'o listbox_option \<Rightarrow> js_string option \<Rightarrow> react_child"
  DEFAULT_GET_ITEM_VALUE :: "'o listbox_option \<Rightarrow> js_string option \<Rightarrow> number_or_string"
  DEFAULT_GET_DISPLAY_LABEL ::
    "'o listbox_option option \<Rightarrow> js_string option \<Rightarrow> bool \<Rightarrow> react_child"

definition arrow_drop_down :: react_child where
  "arrow_drop_down = ElementNode (Component (lit ''FontIcon'')) [TextNode (lit ''arrow_drop_down'')]"

text \<open>\<open>Select.defaultProps\<close>, put by React in the place of every prop left \<open>undefined\<close>.\<close>

definition Select_defaultProps :: "'o select_utils \<Rightarrow> ('ref, 'o, 'cb, 'other) select_props
    \<Rightarrow> ('ref, 'o, 'cb, 'other) select_props" where
  "Select_defaultProps utils p =
     p\<lparr>portal := default_to True (portal p),
       theme := default_to (lit ''outline'') (theme p),
       dense := default_to False (dense p),
       inline := default_to False (inline p),
       error := default_to False (error p),
       disabled := default_to False (disabled p),
       isLeftAddon := default_to True (isLeftAddon p),
       isRightAddon := default_to True (isRightAddon p),
       underlineDirection := default_to (lit ''left'') (underlineDirection p),
       rightChildren := default_to arrow_drop_down (rightChildren p),
       labelKey := default_to (lit ''label'') (labelKey p),
       valueKey := default_to (lit ''value'') (valueKey p),
       getOptionId := default_to (DEFAULT_GET_OPTION_ID utils) (getOptionId p),
       getOptionLabel := default_to (DEFAULT_GET_OPTION_LABEL utils) (getOptionLabel p),
       getOptionValue := default_to (DEFAULT_GET_ITEM_VALUE utils) (getOptionValue p),
       getDisplayLabel := default_to (DEFAULT_GET_DISPLAY_LABEL utils) (getDisplayLabel p),
       disableLeftAddon := default_to False (disableLeftAddon p),
       disableMovementChange := default_to False (disableMovementChange p)\<rparr>"

text \<open>
  A select with two options and no optional prop, and stand-ins for the functions of the
  library, at which the theorems below are evaluated.
\<close>

text \<open>
  The callbacks in the props of the select of the demo: the \<open>handleChange\<close> of the demo, or
  one that comes with the props of the field (known by its identity).
\<close>

datatype example_callback = ExampleHandleChange | FieldCallback nat

definition plain_select :: "(unit, unit, example_callback, unit) select_props" where
  "plain_select =
     \<lparr>theme = None, dense = None, inline = None, error = None, underlineDirection = None,
      isLeftAddon = None, isRightAddon = None, leftChildren = None, rightChildren = None,
      portal = None, portalInto = None, portalIntoId = None,
      options = [PrimitiveOption (Str (lit ''a'')), PrimitiveOption (Str (lit ''b''))],
      labelKey = None, valueKey = None, getOptionId = None, getOptionLabel = None,
      getOptionValue = None, disableMovementChange = None, value = Str (lit ''a''),
      onChange = FieldCallback 0,
      id = lit ''select'', disabled = None, label = None, labelStyle = None,
      labelClassName = None, displayLabelStyle = None, displayLabelClassName = None,
      listboxStyle = None, listboxClassName = None, readOnly = None, placeholder = None,
      getDisplayLabel = None, disableLeftAddon = None, className = None, forwardedRef = None,
      onBlur = None, onFocus = None, onKeyDown = None, onClick = None, props = ()\<rparr>"

definition option_text :: "unit listbox_option \<Rightarrow> react_child" where
  "option_text opt =
     (case opt of
        PrimitiveOption (Str s) \<Rightarrow> TextNode s
      | PrimitiveOption (Num k) \<Rightarrow> NumberNode k
      | ObjectOption ob \<Rightarrow> NullNode)"

definition simple_utils :: "unit select_utils" where
  "simple_utils =
     \<lparr>DEFAULT_GET_OPTION_ID = (\<lambda>base i. base @ lit ''-option-'' @ digits (Suc i)),
      DEFAULT_GET_OPTION_LABEL = (\<lambda>opt k. option_text opt),
      DEFAULT_GET_ITEM_VALUE =
        (\<lambda>opt k. case opt of PrimitiveOption v \<Rightarrow> v | ObjectOption ob \<Rightarrow> Str []),
      DEFAULT_GET_DISPLAY_LABEL =
        (\<lambda>opt k addon. case opt of None \<Rightarrow> NullNode | Some t \<Rightarrow> option_text t)\<rparr>"

text \<open>
  The state of one \<open>Select\<close>: the flag of \<open>useToggle\<close>, the flag of
  \<open>useFocusState\<close>, the DOM node in \<open>selectRef\<close> (known by its identity) and the style
  that \<open>useFixedPositioning\<close> returns.
\<close>

type_synonym dom_node = nat

record select_state =
  visible :: bool
  focused :: bool
  selectRef :: "dom_node option"
  fixedStyle :: "css_properties option"

definition initial_state :: select_state where
  "initial_state = \<lparr>visible = False, focused = False, selectRef = None, fixedStyle = None\<rparr>"

datatype select_handler =
  HandleFocus | HandleBlur | HandleKeyDown | HandleClick | HandleKeyboardClose | RefCallback

text \<open>The elements that \<open>Select\<close> renders, each with the props it is given.\<close>

record 'other text_field_container_element =
  container_options :: text_field_container_options
  container_id :: js_string
  container_disabled :: "bool option"
  container_props :: 'other
  container_onFocus :: select_handler
  container_onBlur :: select_handler
  container_onKeyDown :: "select_handler option"
  container_onClick :: "select_handler option"
  container_aria_haspopup :: js_string
  container_aria_disabled :: "bool option"
  container_role :: js_string
  container_tabIndex :: "int option"
  container_ref :: select_handler
  container_active :: bool
  container_label :: bool
  container_className :: js_string

record floating_label_other =
  htmlFor :: js_string
  floating :: bool
  component :: js_string
  label_children :: "react_child option"

record value_element =
  value_id :: js_string
  value_style :: "css_properties option"
  value_className :: js_string
  value_children :: "react_child option"

record ('o, 'cb) listbox_element =
  listbox_id :: js_string
  listbox_aria_labelledby :: js_string
  listbox_style :: css_properties
  listbox_className :: "js_string option"
  listbox_portal :: "bool option"
  listbox_portalInto :: "portal_into option"
  listbox_portalIntoId :: "js_string option"
  listbox_value :: number_or_string
  listbox_onChange :: 'cb
  listbox_visible :: bool
  listbox_temporary :: bool
  listbox_onRequestClose :: select_handler
  listbox_options :: "'o listbox_option list"
  listbox_labelKey :: "js_string option"
  listbox_valueKey :: "js_string option"
  listbox_getOptionId :: "(js_string \<Rightarrow> nat \<Rightarrow> js_string) option"
  listbox_getOptionLabel :: "('o listbox_option \<Rightarrow> js_string option \<Rightarrow> react_child) option"
  listbox_getOptionValue ::
    "('o listbox_option \<Rightarrow> js_string option \<Rightarrow> number_or_string) option"
  listbox_disableMovementChange :: "bool option"

record ('o, 'cb, 'other) select_output =
  container :: "'other text_field_container_element"
  floatingLabel :: "(unit, floating_label_other) floating_label_props"
  valueElement :: value_element
  listbox :: "('o, 'cb) listbox_element"

definition select_block :: "bem_arg option \<Rightarrow> bem_modifier option \<Rightarrow> js_string" where
  "select_block = bem (lit ''rmd-select'')"

text \<open>\<open>typeof value === "number" || !!value\<close>\<close>

definition is_valued :: "number_or_string \<Rightarrow> bool" where
  "is_valued v = (case v of Num k \<Rightarrow> True | Str s \<Rightarrow> s \<noteq> [])"

text \<open>\<open>a === b\<close> on strings and numbers: \<open>NaN\<close> is not equal to itself.\<close>

definition strict_equals :: "number_or_string \<Rightarrow> number_or_string \<Rightarrow> bool" where
  "strict_equals a b =
     (case (a, b) of
        (Num x, Num y) \<Rightarrow> x = y \<and> Rep_js_number x \<noteq> NotANumber
      | (Str x, Str y) \<Rightarrow> x = y
      | _ \<Rightarrow> False)"

text \<open>Calling a prop that is \<open>undefined\<close> throws a \<open>TypeError\<close>.\<close>

definition call_prop :: "'f option \<Rightarrow> ('f \<Rightarrow> 'b) \<Rightarrow> js_error + 'b" where
  "call_prop f args = (case f of None \<Rightarrow> Inl TypeError | Some g \<Rightarrow> Inr (args g))"

text \<open>\<open>Array.prototype.find\<close> with a predicate that may throw.\<close>

fun find_option :: "('a \<Rightarrow> js_error + bool) \<Rightarrow> 'a list \<Rightarrow> js_error + 'a option" where
  "find_option pr [] = Inr None"
| "find_option pr (x # xs) =
     (case pr x of
        Inl e \<Rightarrow> Inl e
      | Inr found \<Rightarrow> if found then Inr (Some x) else find_option pr xs)"

definition displayValue :: "('ref, 'o, 'cb, 'other) select_props \<Rightarrow> js_error + react_child" where
  "displayValue p =
     bind_result
       (find_option
          (\<lambda>option. call_prop (getOptionValue p)
             (\<lambda>f. strict_equals (f option (valueKey p)) (value p)))
          (options p))
       (\<lambda>found.
          let currentOption =
                (case found of
                   None \<Rightarrow> None
                 | Some option \<Rightarrow> if truthy_option option then Some option else None)
          in call_prop (getDisplayLabel p)
               (\<lambda>f. f currentOption (labelKey p) (\<not> truthy_bool (disableLeftAddon p))))"


text \<open>\<open>displayValue || (!valued && placeholder)\<close>, the children of the element of the value.\<close>

definition display_or_placeholder :: "react_child \<Rightarrow> bool \<Rightarrow> react_child option
    \<Rightarrow> react_child option" where
  "display_or_placeholder displayed has_value fallback =
     (if truthy_node (Some displayed) then Some displayed
      else if has_value then Some (BooleanNode False)
      else fallback)"

text \<open>
  The option that is displayed, \<open>options.find(...) || null\<close>, when \<open>getOptionValue\<close> is
  the function \<open>f\<close>: the first option whose value is the value of the select, if that
  option is truthy.
\<close>

definition current_option :: "('o listbox_option \<Rightarrow> js_string option \<Rightarrow> number_or_string)
    \<Rightarrow> js_string option \<Rightarrow> number_or_string \<Rightarrow> 'o listbox_option list
    \<Rightarrow> 'o listbox_option option" where
  "current_option f k v opts =
     (case List.find (\<lambda>option. strict_equals (f option k) v) opts of
        None \<Rightarrow> None
      | Some option \<Rightarrow> if truthy_option option then Some option else None)"

text \<open>
  The render: the props are the ones after the defaults, the state is the one of the hooks.
  It fails where the source would throw, on a call of a function prop that is \<open>undefined\<close>.
  The transition callbacks of \<open>useFixedPositioning\<close> that go to the list are left out.
\<close>

definition Select :: "('ref, 'o, 'cb, 'other) select_props \<Rightarrow> select_state
    \<Rightarrow> js_error + ('o, 'cb, 'other) select_output" where
  "Select p st =
     (let valued = is_valued (value p) in
      bind_result (displayValue p) (\<lambda>displayed.
        Inr \<lparr>
          container = \<lparr>
            container_options = \<lparr>
              theme = theme p, dense = dense p, inline = inline p, error = error p,
              underlineDirection = underlineDirection p, isLeftAddon = isLeftAddon p,
              isRightAddon = isRightAddon p, leftChildren = leftChildren p,
              rightChildren = rightChildren p\<rparr>,
            container_id = id p,
            container_disabled = disabled p,
            container_props = props p,
            container_onFocus = HandleFocus,
            container_onBlur = HandleBlur,
            container_onKeyDown = (if truthy_bool (disabled p) then None else Some HandleKeyDown),
            container_onClick = (if truthy_bool (disabled p) then None else Some HandleClick),
            container_aria_haspopup = lit ''listbox'',
            container_aria_disabled = (if truthy_bool (disabled p) then disabled p else None),
            container_role = lit ''button'',
            container_tabIndex = (if truthy_bool (disabled p) then None else Some 0),
            container_ref = RefCallback,
            container_active = (focused st \<or> visible st),
            container_label = truthy_node (label p),
            container_className =
              cn [Some (select_block
                          (Some (BemModifier [(lit ''disabled'', truthy_bool (disabled p))])) None),
                  className p]\<rparr>,
          floatingLabel = \<lparr>
            label_props.active = Some (valued \<and> (focused st \<or> visible st)),
            label_props.error = error p,
            label_props.disabled = disabled p,
            label_props.props = \<lparr>
              htmlFor = id p,
              floating = (focused st \<or> valued \<or> visible st),
              component = lit ''span'',
              label_children = label p\<rparr>,
            floating_label_props.style = labelStyle p,
            floating_label_props.className =
              Some (cn [Some (select_block (Some (BemElement (lit ''label''))) None),
                        labelClassName p]),
            floating_label_props.forwardedRef = None,
            floating_label_props.underline = None,
            floating_label_props.outline = None,
            floating_label_props.valued = valued,
            floating_label_props.dense = dense p,
            floating_label_props.covering = None,
            floating_label_props.leftChildren = Some (truthy_node (leftChildren p)),
            floating_label_props.rightChildren = Some (truthy_node (rightChildren p))\<rparr>,
          valueElement = \<lparr>
            value_id = id p @ lit ''-value'',
            value_style = displayLabelStyle p,
            value_className =
              cn [Some (select_block (Some (BemElement (lit ''value'')))
                          (Some [(lit ''disabled'', truthy_bool (disabled p)),
                                 (lit ''readonly'', truthy_bool (readOnly p)),
                                 (lit ''placeholder'', \<not> valued \<and> truthy_node (placeholder p)),
                                 (lit ''placeholder-active'',
                                    \<not> valued \<and> truthy_node (placeholder p) \<and> focused st)])),
                  displayLabelClassName p],
            value_children = display_or_placeholder displayed valued (placeholder p)\<rparr>,
          listbox = \<lparr>
            listbox_id = id p @ lit ''-listbox'',
            listbox_aria_labelledby = id p,
            listbox_style = spread (fixedStyle st) ++ spread (listboxStyle p),
            listbox_className = listboxClassName p,
            listbox_portal = portal p,
            listbox_portalInto = portalInto p,
            listbox_portalIntoId = portalIntoId p,
            listbox_value = value p,
            listbox_onChange = onChange p,
            listbox_visible = visible st,
            listbox_temporary = True,
            listbox_onRequestClose = HandleKeyboardClose,
            listbox_options = options p,
            listbox_labelKey = labelKey p,
            listbox_valueKey = valueKey p,
            listbox_getOptionId = getOptionId p,
            listbox_getOptionLabel = getOptionLabel p,
            listbox_getOptionValue = getOptionValue p,
            listbox_disableMovementChange = disableMovementChange p\<rparr>\<rparr>))"

text \<open>One render of the component as React does it: the defaults, then the function.\<close>

definition render_Select :: "'o select_utils \<Rightarrow> ('ref, 'o, 'cb, 'other) select_props \<Rightarrow> select_state
    \<Rightarrow> js_error + ('o, 'cb, 'other) select_output" where
  "render_Select utils p st = Select (Select_defaultProps utils p) st"

text \<open>What a handler does besides updating the state of the component.\<close>

datatype ('ref, 'cb) effect =
    CallProp 'cb
  | CallOnChange 'cb number_or_string
  | PreventDefault
  | SubmitForm
  | FocusElement dom_node
  | ApplyRef 'ref "dom_node option"

text \<open>
  Modelled from the spec: \<open>useToggle\<close> (\<open>@react-md/utils\<close>) is not among the sources.
  It keeps one of the open/closed flags of the spec, here \<open>visible\<close>, and returns with it
  a function that sets the flag, here \<open>show\<close>, and one that clears it.
\<close>

definition show_toggle :: "select_state \<Rightarrow> select_state" where
  "show_toggle st = st\<lparr>visible := True\<rparr>"

text \<open>
  Modelled from the spec: \<open>hide\<close>, the third value that \<open>useToggle\<close> returns, clears the
  flag: closing is "just a synchronous state flag flip".
\<close>

definition hide_toggle :: "select_state \<Rightarrow> select_state" where
  "hide_toggle st = st\<lparr>visible := False\<rparr>"

text \<open>
  Modelled from the spec: \<open>useFocusState\<close> (\<open>../useFocusState\<close>) is not among the
  sources. It keeps one of the focus flags of the spec. The handler of focus that it
  returns calls the \<open>onFocus\<close> given to it, if any, and sets the flag.
\<close>

definition handleFocus :: "('ref, 'o, 'cb, 'other) select_props \<Rightarrow> select_state
    \<Rightarrow> ('ref, 'cb) effect list \<times> select_state" where
  "handleFocus p st =
     ((case onFocus p of None \<Rightarrow> [] | Some cb \<Rightarrow> [CallProp cb]), st\<lparr>focused := True\<rparr>)"

text \<open>
  Modelled from the spec: the handler of blur that \<open>useFocusState\<close> returns calls the
  \<open>onBlur\<close> given to it, if any, and clears the focus flag.
\<close>

definition handleBlur :: "('ref, 'o, 'cb, 'other) select_props \<Rightarrow> select_state
    \<Rightarrow> ('ref, 'cb) effect list \<times> select_state" where
  "handleBlur p st =
     ((case onBlur p of None \<Rightarrow> [] | Some cb \<Rightarrow> [CallProp cb]), st\<lparr>focused := False\<rparr>)"

text \<open>
  The key of the event, and whether \<open>event.currentTarget.closest("form")\<close> finds a form.
\<close>

definition handleKeyDown :: "('ref, 'o, 'cb, 'other) select_props \<Rightarrow> js_string \<Rightarrow> bool
    \<Rightarrow> select_state \<Rightarrow> ('ref, 'cb) effect list \<times> select_state" where
  "handleKeyDown p k form st =
     (let called = (case onKeyDown p of None \<Rightarrow> [] | Some cb \<Rightarrow> [CallProp cb]) in
      if k = lit '' '' \<or> k = lit ''ArrowUp'' \<or> k = lit ''ArrowDown''
      then (called @ [PreventDefault], show_toggle st)
      else if k = lit ''Enter''
      then (called @ (if form then [SubmitForm] else []), st)
      else (called, st))"

definition handleClick :: "('ref, 'o, 'cb, 'other) select_props \<Rightarrow> select_state
    \<Rightarrow> ('ref, 'cb) effect list \<times> select_state" where
  "handleClick p st =
     ((case onClick p of None \<Rightarrow> [] | Some cb \<Rightarrow> [CallProp cb]), show_toggle st)"

definition handleKeyboardClose :: "select_state \<Rightarrow> ('ref, 'cb) effect list \<times> select_state" where
  "handleKeyboardClose st =
     ((case selectRef st of None \<Rightarrow> [] | Some node \<Rightarrow> [FocusElement node]), hide_toggle st)"

text \<open>The callback ref: \<open>applyRef(instance, forwardedRef); selectRef.current = instance\<close>.\<close>

definition ref_callback :: "('ref, 'o, 'cb, 'other) select_props \<Rightarrow> dom_node option
    \<Rightarrow> select_state \<Rightarrow> ('ref, 'cb) effect list \<times> select_state" where
  "ref_callback p instance st =
     ((case forwardedRef p of None \<Rightarrow> [] | Some r \<Rightarrow> [ApplyRef r instance]),
      st\<lparr>selectRef := instance\<rparr>)"

text \<open>
  Modelled from the spec: \<open>useCloseOnOutsideClick\<close> (\<open>@react-md/utils\<close>) is not among
  the sources. It is the click-outside detection of the spec: while it is enabled, a
  click whose target is not inside the element calls \<open>onOutsideClick\<close>. Here it is
  enabled while the list is visible, the element is the one in \<open>selectRef\<close>, and
  \<open>onOutsideClick\<close> is \<open>hide\<close>. The flag of the event says whether the target is inside
  the element.
\<close>

definition outside_click :: "bool \<Rightarrow> select_state \<Rightarrow> ('ref, 'cb) effect list \<times> select_state" where
  "outside_click inside st =
     (if visible st \<and> \<not> (selectRef st \<noteq> None \<and> inside) then ([], hide_toggle st)
      else ([], st))"

text \<open>
  The events that reach the handlers of one \<open>Select\<close>. The list calls the \<open>onChange\<close>
  it was given, which is the one of the props, and its \<open>onRequestClose\<close>. The key and
  click handlers are not attached while the select is disabled.
\<close>

datatype select_event =
    FocusEvent
  | BlurEvent
  | KeyDownEvent js_string bool
  | ClickEvent
  | WindowClickEvent bool
  | ListboxRequestClose
  | ListboxChange number_or_string
  | RefEvent "dom_node option"

definition select_step :: "('ref, 'o, 'cb, 'other) select_props \<Rightarrow> select_event \<Rightarrow> select_state
    \<Rightarrow> ('ref, 'cb) effect list \<times> select_state" where
  "select_step p ev st =
     (case ev of
        FocusEvent \<Rightarrow> handleFocus p st
      | BlurEvent \<Rightarrow> handleBlur p st
      | KeyDownEvent k form \<Rightarrow>
          if truthy_bool (disabled p) then ([], st) else handleKeyDown p k form st
      | ClickEvent \<Rightarrow> if truthy_bool (disabled p) then ([], st) else handleClick p st
      | WindowClickEvent inside \<Rightarrow> outside_click inside st
      | ListboxRequestClose \<Rightarrow> handleKeyboardClose st
      | ListboxChange v \<Rightarrow> ([CallOnChange (onChange p) v], st)
      | RefEvent instance \<Rightarrow> ref_callback p instance st)"

definition is_onChange_call :: "('ref, 'cb) effect \<Rightarrow> bool" where
  "is_onChange_call e = (case e of CallOnChange cb v \<Rightarrow> True | _ \<Rightarrow> False)"


section \<open>SelectExample\<close>

text \<open>
  The demo that renders a \<open>Select\<close>: it keeps the value in a state of its own and
  gives the select the value and the function that sets it.
\<close>

record select_example_state =
  example_value :: js_string
  example_disableMovementChange :: bool

definition SelectExample_initial :: select_example_state where
  "SelectExample_initial = \<lparr>example_value = [], example_disableMovementChange = False\<rparr>"

definition SelectExample_options :: "'o listbox_option list" where
  "SelectExample_options =
     map (\<lambda>i. PrimitiveOption (Str (lit ''Option '' @ number_to_string (digit_number (i + 1)))))
       [0..<8]"

definition handleChange :: "js_string \<Rightarrow> select_example_state \<Rightarrow> select_example_state" where
  "handleChange nextValue st = st\<lparr>example_value := nextValue\<rparr>"

text \<open>
  The props of the select: the ones that \<open>renderField\<close> hands in, without
  \<open>rightChildren\<close>, and over them the ones of the demo.
\<close>

definition SelectExample_select :: "('ref, 'o, example_callback, 'other) select_props
    \<Rightarrow> select_example_state \<Rightarrow> ('ref, 'o, example_callback, 'other) select_props" where
  "SelectExample_select field st =
     field\<lparr>rightChildren := None,
           id := lit ''custom-select-1'',
           options := SelectExample_options,
           value := Str (example_value st),
           onChange := ExampleHandleChange,
           disableMovementChange := Some (example_disableMovementChange st)\<rparr>"

text \<open>What the calls made by the select do to the state of the demo.\<close>

fun SelectExample_effects :: "('ref, example_callback) effect list \<Rightarrow> select_example_state
    \<Rightarrow> select_example_state" where
  "SelectExample_effects [] st = st"
| "SelectExample_effects (CallOnChange ExampleHandleChange (Str nextValue) # es) st =
     SelectExample_effects es (handleChange nextValue st)"
| "SelectExample_effects (e # es) st = SelectExample_effects es st"


section \<open>Class lists of the generated names\<close>

lemma split_tokens_append_ws:
  "is_ascii_whitespace sp \<Longrightarrow>
   split_tokens acc (a @ sp # b) = split_tokens acc a @ split_tokens [] b"
  by (induction a arbitrary: acc) auto

lemma class_list_append_space:
  "class_list (a @ lit '' '' @ b) = class_list a @ class_list b"
proof -
  have "is_ascii_whitespace 0x20" by (simp add: is_ascii_whitespace_def)
  from split_tokens_append_ws [OF this, of "[]" a b] show ?thesis
    by (simp add: class_list_def lit_def)
qed

lemma class_list_Nil: "class_list [] = []"
  by (simp add: class_list_def)

lemma class_list_join_space:
  "class_list (join_space xs) = concat (map class_list xs)"
proof (induction xs rule: join_space.induct)
  case 1
  show ?case by (simp add: class_list_Nil)
next
  case (2 x)
  show ?case by simp
next
  case (3 x y ys)
  then show ?case by (simp add: class_list_append_space)
qed

lemma class_list_cn:
  "class_list (cn args) =
   concat (map (\<lambda>a. case a of None \<Rightarrow> [] | Some s \<Rightarrow> class_list s) args)"
proof -
  have "concat (map class_list [s. Some s \<leftarrow> args, s \<noteq> []])
        = concat (map (\<lambda>a. case a of None \<Rightarrow> [] | Some s \<Rightarrow> class_list s) args)"
    by (induction args) (auto simp: class_list_Nil split: option.splits)
  then show ?thesis by (simp add: cn_def class_list_join_space)
qed

lemma class_list_foldl_modify:
  "class_list (foldl (\<lambda>s (md, on). if on then s @ lit '' '' @ base @ lit ''--'' @ md else s) acc m)
   = class_list acc
     @ concat (map (\<lambda>(md, on). if on then class_list (base @ lit ''--'' @ md) else []) m)"
  by (induction m arbitrary: acc) (auto simp: class_list_append_space)

lemma class_list_modify:
  "class_list (modify base m)
   = class_list base
     @ concat (map (\<lambda>(md, on). if on then class_list (base @ lit ''--'' @ md) else []) m)"
  by (simp add: modify_def class_list_foldl_modify)

lemma split_tokens_no_whitespace:
  "\<forall>c \<in> set t. \<not> is_ascii_whitespace c \<Longrightarrow>
   split_tokens acc t = (if acc @ t = [] then [] else [acc @ t])"
  by (induction t arbitrary: acc) auto

lemma class_list_token:
  "t \<noteq> [] \<Longrightarrow> \<forall>c \<in> set t. \<not> is_ascii_whitespace c \<Longrightarrow> class_list t = [t]"
  by (simp add: class_list_def split_tokens_no_whitespace)

lemma digit_no_whitespace: "d < 10 \<Longrightarrow> \<not> is_ascii_whitespace (0x30 + of_nat d)"
proof -
  assume "d < 10"
  then have "d \<in> {0, 1, 2, 3, 4, 5, 6, 7, 8, 9}" by auto
  then show ?thesis by (auto simp: is_ascii_whitespace_def)
qed

lemma digits_no_whitespace: "\<forall>c \<in> set (digits n). \<not> is_ascii_whitespace c"
proof (induction n rule: digits.induct)
  case (1 n)
  show ?case
  proof (cases "n < 10")
    case True
    then show ?thesis
      by (subst digits.simps) (simp add: digit_no_whitespace)
  next
    case False
    have "n mod 10 < 10" by simp
    then have "\<not> is_ascii_whitespace (0x30 + of_nat (n mod 10))"
      by (rule digit_no_whitespace)
    with False 1 show ?thesis
      by (subst digits.simps) auto
  qed
qed

lemma literal_no_whitespace:
  "\<not> is_ascii_whitespace 0x30" "\<not> is_ascii_whitespace 0x2E" "\<not> is_ascii_whitespace 0x65"
  "\<not> is_ascii_whitespace 0x2B" "\<not> is_ascii_whitespace 0x2D"
  by (simp_all add: is_ascii_whitespace_def)

lemma decimal_string_chars:
  "set (decimal_string s n)
     \<subseteq> set (digits s) \<union> set (digits (nat \<bar>n - 1\<bar>)) \<union> {0x30, 0x2E, 0x65, 0x2B, 0x2D}"
proof -
  let ?ds = "digits s"
  let ?all = "set ?ds \<union> set (digits (nat \<bar>n - 1\<bar>)) \<union> {0x30, 0x2E, 0x65, 0x2B, 0x2D}"
  have pieces: "set (take m ?ds) \<subseteq> ?all" "set (drop m ?ds) \<subseteq> ?all" "set ?ds \<subseteq> ?all"
    "set (digits (nat \<bar>n - 1\<bar>)) \<subseteq> ?all" "set (replicate m 0x30) \<subseteq> ?all" for m
    using set_take_subset [of m ?ds] set_drop_subset [of m ?ds] by auto
  have literals: "set (lit ''.'') \<subseteq> ?all" "set (lit ''0.'') \<subseteq> ?all" "set (lit ''e'') \<subseteq> ?all"
    "set (lit ''+'') \<subseteq> ?all" "set (lit ''-'') \<subseteq> ?all"
    by (simp_all add: lit_def)
  show ?thesis
    unfolding decimal_string_def Let_def
    by (simp only: set_append Un_subset_iff pieces literals simp_thms split: if_split)
qed

lemma decimal_string_no_whitespace:
  "\<forall>c \<in> set (decimal_string s n). \<not> is_ascii_whitespace c"
proof
  fix c
  assume "c \<in> set (decimal_string s n)"
  with decimal_string_chars [of s n]
  have "c \<in> set (digits s) \<or> c \<in> set (digits (nat \<bar>n - 1\<bar>))
      \<or> c \<in> {0x30, 0x2E, 0x65, 0x2B, 0x2D}"
    by blast
  then show "\<not> is_ascii_whitespace c"
    using digits_no_whitespace literal_no_whitespace by auto
qed

lemma number_string_no_whitespace:
  "\<forall>c \<in> set (number_string r). \<not> is_ascii_whitespace c"
proof -
  have sign: "\<forall>c \<in> set (if negative then lit ''-'' else []). \<not> is_ascii_whitespace c"
    for negative
    by (simp add: lit_def is_ascii_whitespace_def)
  have words: "\<forall>c \<in> set (lit ''NaN''). \<not> is_ascii_whitespace c"
    "\<forall>c \<in> set (lit ''0''). \<not> is_ascii_whitespace c"
    "\<forall>c \<in> set (lit ''Infinity''). \<not> is_ascii_whitespace c"
    by (simp_all add: lit_def is_ascii_whitespace_def)
  show ?thesis
  proof (cases r)
    case NotANumber
    show ?thesis
      unfolding NotANumber number_string_def number_rep.case by (rule words)
  next
    case Zero
    show ?thesis
      unfolding Zero number_string_def number_rep.case by (rule words)
  next
    case (Decimal negative s n)
    show ?thesis
      unfolding Decimal number_string_def number_rep.case set_append ball_Un
      by (rule conjI, rule sign, rule decimal_string_no_whitespace)
  next
    case (Infinite negative)
    show ?thesis
      unfolding Infinite number_string_def number_rep.case set_append ball_Un
      by (rule conjI, rule sign, rule words)
  qed
qed

lemma number_to_string_no_whitespace:
  "\<forall>c \<in> set (number_to_string k). \<not> is_ascii_whitespace c"
  unfolding number_to_string_def by (rule number_string_no_whitespace)

lemma number_to_string_digit:
  "0 < d \<Longrightarrow> d < 10 \<Longrightarrow> number_to_string (digit_number d) = [0x30 + of_nat d]"
proof -
  assume d: "0 < d" "d < 10"
  then have "is_number (Decimal False d 1)"
    by (simp add: is_number_def)
  then have "Rep_js_number (digit_number d) = Decimal False d 1"
    by (simp add: digit_number_def Abs_js_number_inverse)
  moreover from d have "digits d = [0x30 + of_nat d]"
    by (subst digits.simps) simp
  ultimately show ?thesis
    by (simp add: number_to_string_def number_string_def decimal_string_def)
qed

lemma number_to_string_Abs:
  "is_number r \<Longrightarrow> number_to_string (Abs_js_number r) = number_string r"
  by (simp add: number_to_string_def Abs_js_number_inverse)

lemma class_list_cell_modifier:
  "class_list (lit ''rmd-grid__cell--'' @ number_to_string n)
   = [lit ''rmd-grid__cell--'' @ number_to_string n]"
proof (rule class_list_token)
  show "lit ''rmd-grid__cell--'' @ number_to_string n \<noteq> []"
    by (simp add: lit_def)
  show "\<forall>c \<in> set (lit ''rmd-grid__cell--'' @ number_to_string n). \<not> is_ascii_whitespace c"
    using number_to_string_no_whitespace [of n]
    by (auto simp: lit_def is_ascii_whitespace_def)
qed

lemma class_list_cell: "class_list (lit ''rmd-grid__cell'') = [lit ''rmd-grid__cell'']"
  by (simp add: class_list_def lit_def is_ascii_whitespace_def)

lemma class_list_cellClassName:
  "class_list (cellClassName p) =
     lit ''rmd-grid__cell''
     # (if truthy_number (colSpan p)
        then [lit ''rmd-grid__cell--'' @ template_number (colSpan p)] else [])
     @ (case grid_cell_props.className p of None \<Rightarrow> [] | Some s \<Rightarrow> class_list s)"
proof -
  have name: "lit ''rmd-grid'' @ lit ''__'' @ lit ''cell'' = lit ''rmd-grid__cell''"
    by (simp add: lit_def)
  have nonempty: "lit ''cell'' \<noteq> []"
    by (simp add: lit_def)
  have modifier: "lit ''rmd-grid__cell'' @ lit ''--'' @ x = lit ''rmd-grid__cell--'' @ x" for x
    by (simp add: lit_def)
  have token: "truthy_number (colSpan p) \<Longrightarrow>
      class_list (lit ''rmd-grid__cell--'' @ template_number (colSpan p))
        = [lit ''rmd-grid__cell--'' @ template_number (colSpan p)]"
    by (cases "colSpan p")
      (simp_all add: truthy_number_def template_number_def class_list_cell_modifier)
  show ?thesis
    by (simp add: cellClassName_def grid_block_def bem_def class_list_cn class_list_modify
        name nonempty modifier class_list_cell token)
qed

lemma rendered_class_list_GridCell:
  "rendered_class_list (GridCell ctx p) =
     lit ''rmd-grid__cell''
     # (if truthy_number (colSpan p)
        then [lit ''rmd-grid__cell--'' @ template_number (colSpan p)] else [])
     @ supplied_classes p"
  by (simp add: GridCell_def rendered_class_list_def supplied_classes_def class_list_cn
      class_list_cellClassName split: react_node.splits bool.splits)

lemma positive_truthy: "is_positive k \<Longrightarrow> truthy_number (Some k)"
  by (cases "Rep_js_number k") (simp_all add: is_positive_def truthy_number_def)

lemma zero_falsy: "\<not> truthy_number (Some number_zero)"
  by (simp add: truthy_number_def number_zero_def Abs_js_number_inverse is_number_def)

section \<open>GridCell: the span class\<close>

text \<open>
  Claim C1. A cell whose \<open>colSpan\<close> is a positive number \<open>n\<close> has the token
  \<open>rmd-grid__cell--n\<close>, with \<open>n\<close> written as JavaScript writes the number, in the class
  list of the element it renders: \<open>rmd-grid__cell--3\<close> for \<open>colSpan = 3\<close>. A cell whose
  \<open>colSpan\<close> is not given, or is \<open>0\<close>, renders the class \<open>rmd-grid__cell\<close> followed by
  the class names that were handed to it (its \<open>className\<close> and, when it clones, the one of
  its child) and by nothing else: the cell adds no span token.
\<close>

theorem GridCell_colSpan_class:
  fixes p :: "('ref, 'other, 'n) grid_cell_props"
  shows "(colSpan p = Some n \<longrightarrow> is_positive n \<longrightarrow>
            lit ''rmd-grid__cell--'' @ number_to_string n
              \<in> set (rendered_class_list (GridCell ctx p)))
       \<and> (colSpan p = None \<or> colSpan p = Some number_zero \<longrightarrow>
            rendered_class_list (GridCell ctx p) = lit ''rmd-grid__cell'' # supplied_classes p)"
proof (intro conjI impI)
  assume "colSpan p = Some n" and "is_positive n"
  then show "lit ''rmd-grid__cell--'' @ number_to_string n
      \<in> set (rendered_class_list (GridCell ctx p))"
    by (simp add: rendered_class_list_GridCell positive_truthy template_number_def)
next
  assume "colSpan p = None \<or> colSpan p = Some number_zero"
  then have "\<not> truthy_number (colSpan p)"
    using zero_falsy by (auto simp: truthy_number_def)
  then show "rendered_class_list (GridCell ctx p) = lit ''rmd-grid__cell'' # supplied_classes p"
    by (simp add: rendered_class_list_GridCell)
qed

theorem GridCell_colSpan_class_witness:
  "lit ''rmd-grid__cell--3''
     \<in> set (rendered_class_list (GridCell wide_screen (plain_cell\<lparr>colSpan := Some (digit_number 3)\<rparr>)))
   \<and> lit ''rmd-grid__cell--1.5''
     \<in> set (rendered_class_list (GridCell wide_screen
          (plain_cell\<lparr>colSpan := Some (Abs_js_number (Decimal False 15 1))\<rparr>)))
   \<and> lit ''rmd-grid__cell--1152921504606847000''
     \<in> set (rendered_class_list (GridCell wide_screen
          (plain_cell\<lparr>colSpan := Some (Abs_js_number (Decimal False 1152921504606847 19))\<rparr>)))
   \<and> rendered_class_list (GridCell wide_screen plain_cell) = [lit ''rmd-grid__cell'']
   \<and> rendered_class_list (GridCell wide_screen (plain_cell\<lparr>colSpan := Some number_zero\<rparr>))
       = [lit ''rmd-grid__cell'']"
proof -
  have numbers: "is_number (Decimal False 3 1)" "is_number (Decimal False 15 1)"
    "is_number (Decimal False 1152921504606847 19)"
    by (simp_all add: is_number_def)
  have positive: "is_positive (digit_number 3)" "is_positive (Abs_js_number (Decimal False 15 1))"
    "is_positive (Abs_js_number (Decimal False 1152921504606847 19))"
    using numbers by (simp_all add: is_positive_def digit_number_def Abs_js_number_inverse)
  have three: "lit ''rmd-grid__cell--'' @ number_to_string (digit_number 3)
      = lit ''rmd-grid__cell--3''"
    by (simp add: number_to_string_digit lit_def)
  have large_digits: "digits 1152921504606847 = lit ''1152921504606847''"
    by (simp add: digits.simps lit_def)
  have zeros: "replicate 3 x = [x, x, x]" for x :: code_unit
    by (simp add: numeral_3_eq_3)
  have half: "lit ''rmd-grid__cell--'' @ number_to_string (Abs_js_number (Decimal False 15 1))
      = lit ''rmd-grid__cell--1.5''"
    by (simp add: number_to_string_Abs numbers number_string_def decimal_string_def
        digits.simps lit_def)
  have large: "lit ''rmd-grid__cell--''
        @ number_to_string (Abs_js_number (Decimal False 1152921504606847 19))
      = lit ''rmd-grid__cell--1152921504606847000''"
    by (simp add: number_to_string_Abs numbers number_string_def decimal_string_def
        large_digits zeros lit_def)
  have supplied: "supplied_classes plain_cell = []"
    "supplied_classes (plain_cell\<lparr>colSpan := Some number_zero\<rparr>) = []"
    by (simp_all add: supplied_classes_def plain_cell_def truthy_bool_def)
  from GridCell_colSpan_class [of "plain_cell\<lparr>colSpan := Some (digit_number 3)\<rparr>"
      "digit_number 3" wide_screen, THEN conjunct1] positive(1)
  have first: "lit ''rmd-grid__cell--3''
     \<in> set (rendered_class_list (GridCell wide_screen (plain_cell\<lparr>colSpan := Some (digit_number 3)\<rparr>)))"
    by (simp add: three)
  from GridCell_colSpan_class [of "plain_cell\<lparr>colSpan := Some (Abs_js_number (Decimal False 15 1))\<rparr>"
      "Abs_js_number (Decimal False 15 1)" wide_screen, THEN conjunct1] positive(2)
  have second: "lit ''rmd-grid__cell--1.5''
     \<in> set (rendered_class_list (GridCell wide_screen
          (plain_cell\<lparr>colSpan := Some (Abs_js_number (Decimal False 15 1))\<rparr>)))"
    by (simp add: half)
  from GridCell_colSpan_class
      [of "plain_cell\<lparr>colSpan := Some (Abs_js_number (Decimal False 1152921504606847 19))\<rparr>"
      "Abs_js_number (Decimal False 1152921504606847 19)" wide_screen, THEN conjunct1] positive(3)
  have third: "lit ''rmd-grid__cell--1152921504606847000''
     \<in> set (rendered_class_list (GridCell wide_screen
          (plain_cell\<lparr>colSpan := Some (Abs_js_number (Decimal False 1152921504606847 19))\<rparr>)))"
    by (simp add: large)
  from GridCell_colSpan_class [of plain_cell _ wide_screen, THEN conjunct2]
  have fourth: "rendered_class_list (GridCell wide_screen plain_cell) = [lit ''rmd-grid__cell'']"
    by (simp add: supplied) (simp add: plain_cell_def)
  from GridCell_colSpan_class [of "plain_cell\<lparr>colSpan := Some number_zero\<rparr>" _ wide_screen,
      THEN conjunct2]
  have fifth: "rendered_class_list (GridCell wide_screen (plain_cell\<lparr>colSpan := Some number_zero\<rparr>))
       = [lit ''rmd-grid__cell'']"
    by (simp add: supplied)
  from first second third fourth fifth show ?thesis by (intro conjI)
qed


section \<open>GridCell: the responsive override\<close>

lemma rendered_style_GridCell:
  "rendered_style (GridCell ctx p) property =
     (case cellStyle ctx p property of
        Some v \<Rightarrow> Some v
      | None \<Rightarrow>
          (case (truthy_bool (clone p), grid_cell_props.children p) of
             (True, SingleElement child) \<Rightarrow> spread (element_style child) property
           | _ \<Rightarrow> None))"
  by (simp add: GridCell_def rendered_style_def result_style_def map_add_def
      split: bool.splits react_node.splits option.splits)

lemma digit_number_rep:
  "0 < d \<Longrightarrow> d < 10 \<Longrightarrow> Rep_js_number (digit_number d) = Decimal False d 1"
  by (simp add: digit_number_def Abs_js_number_inverse is_number_def)

text \<open>
  Claim C8. A cell applies at most one override object: the first, in the order phone,
  tablet, desktop, large desktop, whose flag of the context is set and which is given;
  none when there is no such pair. Each of \<open>rowSpan\<close>, \<open>rowStart\<close>, \<open>rowEnd\<close>,
  \<open>colStart\<close> and \<open>colEnd\<close> that the chosen override leaves \<open>undefined\<close> falls back
  to the prop of the cell, and without an override the props are used as they are.
  The values so found are the ones in the style of the element that the cell renders, the
  \<open>div\<close> or the cloned child, in each property that the \<open>style\<close> prop does not write over.
\<close>

theorem GridCell_media_override:
  fixes p :: "('ref, 'other, 'n) grid_cell_props" and ctx :: "'z app_size_scheme"
  shows
    "(isPhone ctx \<and> phone p \<noteq> None \<longrightarrow> media ctx p = phone p)
   \<and> (\<not> (isPhone ctx \<and> phone p \<noteq> None) \<and> isTablet ctx \<and> tablet p \<noteq> None
        \<longrightarrow> media ctx p = tablet p)
   \<and> (\<not> (isPhone ctx \<and> phone p \<noteq> None) \<and> \<not> (isTablet ctx \<and> tablet p \<noteq> None)
        \<and> isDesktop ctx \<and> desktop p \<noteq> None
        \<longrightarrow> media ctx p = desktop p)
   \<and> (\<not> (isPhone ctx \<and> phone p \<noteq> None) \<and> \<not> (isTablet ctx \<and> tablet p \<noteq> None)
        \<and> \<not> (isDesktop ctx \<and> desktop p \<noteq> None)
        \<and> isLargeDesktop ctx \<and> largeDesktop p \<noteq> None
        \<longrightarrow> media ctx p = largeDesktop p)
   \<and> (\<not> (isPhone ctx \<and> phone p \<noteq> None) \<and> \<not> (isTablet ctx \<and> tablet p \<noteq> None)
        \<and> \<not> (isDesktop ctx \<and> desktop p \<noteq> None)
        \<and> \<not> (isLargeDesktop ctx \<and> largeDesktop p \<noteq> None)
        \<longrightarrow> media ctx p = None)
   \<and> (media ctx p = None \<longrightarrow>
        resolved ctx p = \<lparr>rowSpan = rowSpan p, rowStart = rowStart p, rowEnd = rowEnd p,
                           colStart = colStart p, colEnd = colEnd p\<rparr>)
   \<and> (\<forall>m. media ctx p = Some m \<longrightarrow>
        rowSpan (resolved ctx p) = (case rowSpan m of None \<Rightarrow> rowSpan p | Some v \<Rightarrow> Some v)
      \<and> rowStart (resolved ctx p) = (case rowStart m of None \<Rightarrow> rowStart p | Some v \<Rightarrow> Some v)
      \<and> rowEnd (resolved ctx p) = (case rowEnd m of None \<Rightarrow> rowEnd p | Some v \<Rightarrow> Some v)
      \<and> colStart (resolved ctx p) = (case colStart m of None \<Rightarrow> colStart p | Some v \<Rightarrow> Some v)
      \<and> colEnd (resolved ctx p) = (case colEnd m of None \<Rightarrow> colEnd p | Some v \<Rightarrow> Some v))
   \<and> (spread (grid_cell_props.style p) (lit ''gridColumnStart'') = None \<longrightarrow>
        rendered_style (GridCell ctx p) (lit ''gridColumnStart'')
          = Some (colStart (resolved ctx p)))
   \<and> (spread (grid_cell_props.style p) (lit ''gridColumnEnd'') = None \<longrightarrow>
        rendered_style (GridCell ctx p) (lit ''gridColumnEnd'') = Some (colEnd (resolved ctx p)))
   \<and> (spread (grid_cell_props.style p) (lit ''gridRowStart'') = None \<longrightarrow>
        rendered_style (GridCell ctx p) (lit ''gridRowStart'') = Some (rowStart (resolved ctx p)))
   \<and> (spread (grid_cell_props.style p) (lit ''gridRowEnd'') = None \<longrightarrow>
        rendered_style (GridCell ctx p) (lit ''gridRowEnd'') =
          Some (if truthy_number (rowSpan (resolved ctx p))
                then Some (Str (lit ''span '' @ template_number (rowSpan (resolved ctx p))))
                else rowEnd (resolved ctx p)))"
proof -
  have first: "isPhone ctx \<and> phone p \<noteq> None \<longrightarrow> media ctx p = phone p"
    by (simp add: media_def)
  have second: "\<not> (isPhone ctx \<and> phone p \<noteq> None) \<and> isTablet ctx \<and> tablet p \<noteq> None
        \<longrightarrow> media ctx p = tablet p"
    by (auto simp: media_def)
  have third: "\<not> (isPhone ctx \<and> phone p \<noteq> None) \<and> \<not> (isTablet ctx \<and> tablet p \<noteq> None)
        \<and> isDesktop ctx \<and> desktop p \<noteq> None
        \<longrightarrow> media ctx p = desktop p"
    by (auto simp: media_def)
  have fourth: "\<not> (isPhone ctx \<and> phone p \<noteq> None) \<and> \<not> (isTablet ctx \<and> tablet p \<noteq> None)
        \<and> \<not> (isDesktop ctx \<and> desktop p \<noteq> None)
        \<and> isLargeDesktop ctx \<and> largeDesktop p \<noteq> None
        \<longrightarrow> media ctx p = largeDesktop p"
    by (auto simp: media_def)
  have none: "\<not> (isPhone ctx \<and> phone p \<noteq> None) \<and> \<not> (isTablet ctx \<and> tablet p \<noteq> None)
        \<and> \<not> (isDesktop ctx \<and> desktop p \<noteq> None)
        \<and> \<not> (isLargeDesktop ctx \<and> largeDesktop p \<noteq> None)
        \<longrightarrow> media ctx p = None"
    by (auto simp: media_def)
  have unchanged: "media ctx p = None \<longrightarrow>
      resolved ctx p = \<lparr>rowSpan = rowSpan p, rowStart = rowStart p, rowEnd = rowEnd p,
                         colStart = colStart p, colEnd = colEnd p\<rparr>"
    by (simp add: resolved_def)
  have fallback: "\<forall>m. media ctx p = Some m \<longrightarrow>
      rowSpan (resolved ctx p) = (case rowSpan m of None \<Rightarrow> rowSpan p | Some v \<Rightarrow> Some v)
    \<and> rowStart (resolved ctx p) = (case rowStart m of None \<Rightarrow> rowStart p | Some v \<Rightarrow> Some v)
    \<and> rowEnd (resolved ctx p) = (case rowEnd m of None \<Rightarrow> rowEnd p | Some v \<Rightarrow> Some v)
    \<and> colStart (resolved ctx p) = (case colStart m of None \<Rightarrow> colStart p | Some v \<Rightarrow> Some v)
    \<and> colEnd (resolved ctx p) = (case colEnd m of None \<Rightarrow> colEnd p | Some v \<Rightarrow> Some v)"
    by (simp add: resolved_def or_default_def)
  have columnStart: "spread (grid_cell_props.style p) (lit ''gridColumnStart'') = None \<longrightarrow>
        rendered_style (GridCell ctx p) (lit ''gridColumnStart'')
          = Some (colStart (resolved ctx p))"
    by (simp add: rendered_style_GridCell cellStyle_def Let_def map_add_def lit_def)
  have columnEnd: "spread (grid_cell_props.style p) (lit ''gridColumnEnd'') = None \<longrightarrow>
        rendered_style (GridCell ctx p) (lit ''gridColumnEnd'') = Some (colEnd (resolved ctx p))"
    by (simp add: rendered_style_GridCell cellStyle_def Let_def map_add_def lit_def)
  have rowStart: "spread (grid_cell_props.style p) (lit ''gridRowStart'') = None \<longrightarrow>
        rendered_style (GridCell ctx p) (lit ''gridRowStart'') = Some (rowStart (resolved ctx p))"
    by (simp add: rendered_style_GridCell cellStyle_def Let_def map_add_def lit_def)
  have rowEnd: "spread (grid_cell_props.style p) (lit ''gridRowEnd'') = None \<longrightarrow>
        rendered_style (GridCell ctx p) (lit ''gridRowEnd'') =
          Some (if truthy_number (rowSpan (resolved ctx p))
                then Some (Str (lit ''span '' @ template_number (rowSpan (resolved ctx p))))
                else rowEnd (resolved ctx p))"
    by (simp add: rendered_style_GridCell cellStyle_def Let_def map_add_def lit_def)
  show ?thesis
    by (intro conjI)
      (rule first second third fourth none unchanged fallback columnStart columnEnd rowStart
        rowEnd)+
qed

theorem GridCell_media_override_witness:
  "media small_screen responsive_cell = Some (override 1)
   \<and> media tablet_screen responsive_cell = Some (override 2)
   \<and> media wide_screen responsive_cell = Some (override 3)
   \<and> media large_screen responsive_cell = Some (override 5)
   \<and> media no_screen responsive_cell = None
   \<and> resolved no_screen responsive_cell =
       \<lparr>rowSpan = None, rowStart = Some (Num (digit_number 4)), rowEnd = None,
        colStart = Some (Num (digit_number 3)), colEnd = Some (Str (lit ''span 2''))\<rparr>
   \<and> resolved small_screen responsive_cell =
       \<lparr>rowSpan = Some (digit_number 1), rowStart = Some (Num (digit_number 4)), rowEnd = None,
        colStart = Some (Num (digit_number 1)), colEnd = Some (Str (lit ''span 2''))\<rparr>
   \<and> rendered_style (GridCell small_screen responsive_cell) (lit ''gridColumnStart'')
       = Some (Some (Num (digit_number 1)))
   \<and> rendered_style (GridCell small_screen responsive_cell) (lit ''gridColumnEnd'')
       = Some (Some (Str (lit ''span 2'')))
   \<and> rendered_style (GridCell small_screen responsive_cell) (lit ''gridRowStart'')
       = Some (Some (Num (digit_number 4)))
   \<and> rendered_style (GridCell small_screen responsive_cell) (lit ''gridRowEnd'')
       = Some (Some (Str (lit ''span 1'')))
   \<and> rendered_style
        (GridCell wide_screen
           (responsive_cell\<lparr>clone := Some True,
              grid_cell_props.children := SingleElement plain_child\<rparr>))
        (lit ''gridColumnStart'')
       = Some (Some (Num (digit_number 3)))
   \<and> rendered_style (GridCell no_screen responsive_cell) (lit ''gridRowEnd'') = Some None"
proof -
  let ?cloned = "responsive_cell\<lparr>clone := Some True,
      grid_cell_props.children := SingleElement plain_child\<rparr>"
  note small = GridCell_media_override [of small_screen responsive_cell]
  note wide = GridCell_media_override [of wide_screen ?cloned]
  note none = GridCell_media_override [of no_screen responsive_cell]
  have chosen: "media small_screen responsive_cell = Some (override 1)"
    "media tablet_screen responsive_cell = Some (override 2)"
    "media wide_screen responsive_cell = Some (override 3)"
    "media large_screen responsive_cell = Some (override 5)"
    "media no_screen responsive_cell = None"
    "media wide_screen ?cloned = Some (override 3)"
    using small GridCell_media_override [of tablet_screen responsive_cell]
      GridCell_media_override [of wide_screen responsive_cell]
      GridCell_media_override [of large_screen responsive_cell] none wide
    by (simp_all add: small_screen_def tablet_screen_def wide_screen_def large_screen_def
        no_screen_def responsive_cell_def plain_cell_def)
  have base: "resolved no_screen responsive_cell =
       \<lparr>rowSpan = None, rowStart = Some (Num (digit_number 4)), rowEnd = None,
        colStart = Some (Num (digit_number 3)), colEnd = Some (Str (lit ''span 2''))\<rparr>"
    using none chosen(5) by (simp add: responsive_cell_def plain_cell_def)
  have phone: "resolved small_screen responsive_cell =
       \<lparr>rowSpan = Some (digit_number 1), rowStart = Some (Num (digit_number 4)), rowEnd = None,
        colStart = Some (Num (digit_number 1)), colEnd = Some (Str (lit ''span 2''))\<rparr>"
    using small chosen(1) by (simp add: responsive_cell_def plain_cell_def override_def)
  have desktop: "colStart (resolved wide_screen ?cloned) = Some (Num (digit_number 3))"
    using wide chosen(6) by (simp add: override_def)
  have unstyled: "spread (grid_cell_props.style responsive_cell) property = None"
    "spread (grid_cell_props.style ?cloned) property = None" for property
    by (simp_all add: responsive_cell_def plain_cell_def spread_def)
  have span: "truthy_number (Some (digit_number 1))"
    "lit ''span '' @ number_to_string (digit_number 1) = lit ''span 1''"
    by (simp_all add: truthy_number_def digit_number_rep number_to_string_digit lit_def)
  from small unstyled(1) phone span
  have rendered: "rendered_style (GridCell small_screen responsive_cell) (lit ''gridColumnStart'')
       = Some (Some (Num (digit_number 1)))"
    "rendered_style (GridCell small_screen responsive_cell) (lit ''gridColumnEnd'')
       = Some (Some (Str (lit ''span 2'')))"
    "rendered_style (GridCell small_screen responsive_cell) (lit ''gridRowStart'')
       = Some (Some (Num (digit_number 4)))"
    "rendered_style (GridCell small_screen responsive_cell) (lit ''gridRowEnd'')
       = Some (Some (Str (lit ''span 1'')))"
    by (simp_all add: template_number_def)
  from wide unstyled(2) desktop
  have cloned: "rendered_style (GridCell wide_screen ?cloned) (lit ''gridColumnStart'')
       = Some (Some (Num (digit_number 3)))"
    by simp
  from none unstyled(1) base
  have plain: "rendered_style (GridCell no_screen responsive_cell) (lit ''gridRowEnd'') = Some None"
    by (simp add: truthy_number_def)
  from chosen(1-5) base phone rendered cloned plain show ?thesis
    by (intro conjI)
qed

section \<open>FloatingLabel: the active and inactive modifiers\<close>

lemma truthy_default_False: "truthy_bool (default_to False b) = truthy_bool b"
  by (cases b) (simp_all add: default_to_def truthy_bool_def)

lemma floating_label_tokens:
  "class_list (lit ''rmd-floating-label'') = [lit ''rmd-floating-label'']"
  "class_list (lit ''rmd-floating-label'' @ lit ''--'' @ lit ''dense'') = [lit ''rmd-floating-label--dense'']"
  "class_list (lit ''rmd-floating-label'' @ lit ''--'' @ lit ''active'') = [lit ''rmd-floating-label--active'']"
  "class_list (lit ''rmd-floating-label'' @ lit ''--'' @ lit ''inactive'')
     = [lit ''rmd-floating-label--inactive'']"
  "class_list (lit ''rmd-floating-label'' @ lit ''--'' @ lit ''covering'')
     = [lit ''rmd-floating-label--covering'']"
  "class_list (lit ''rmd-floating-label'' @ lit ''--'' @ lit ''outline-active'')
     = [lit ''rmd-floating-label--outline-active'']"
  "class_list (lit ''rmd-floating-label'' @ lit ''--'' @ lit ''underline-left-offset'')
     = [lit ''rmd-floating-label--underline-left-offset'']"
  by (simp_all add: class_list_def lit_def is_ascii_whitespace_def)

lemma class_list_floating_label:
  "class_list (floating_label_className p) =
     lit ''rmd-floating-label''
     # (if truthy_bool (floating_label_props.dense p) then [lit ''rmd-floating-label--dense''] else [])
     @ (if isActive p then [lit ''rmd-floating-label--active''] else [])
     @ (if floating_label_props.valued p \<and> \<not> truthy_bool (label_props.active p)
        then [lit ''rmd-floating-label--inactive''] else [])
     @ (if truthy_bool (covering p) then [lit ''rmd-floating-label--covering''] else [])
     @ (if isActive p \<and> truthy_bool (outline p)
        then [lit ''rmd-floating-label--outline-active''] else [])
     @ (if isActive p \<and> truthy_bool (underline p) \<and> truthy_bool (floating_label_props.leftChildren p)
        then [lit ''rmd-floating-label--underline-left-offset''] else [])
     @ supplied_label_classes p"
  by (simp add: floating_label_className_def floating_label_block_def bem_def class_list_cn
      class_list_modify floating_label_tokens supplied_label_classes_def)

lemma label_class_list_render:
  "label_class_list (render_FloatingLabel p) =
     class_list (floating_label_className (floating_label_defaultProps p))"
  by (simp add: label_class_list_def render_FloatingLabel_def FloatingLabel_def)

text \<open>
  Claim C9, as it is stated, fails: a label that has a value and is not active is
  rendered with the modifier \<open>active\<close> and with the modifier \<open>inactive\<close>.
\<close>

theorem FloatingLabel_modifiers_counterexample:
  "lit ''rmd-floating-label--active''
     \<in> set (label_class_list (render_FloatingLabel (plain_label\<lparr>valued := True\<rparr>)))
   \<and> lit ''rmd-floating-label--inactive''
     \<in> set (label_class_list (render_FloatingLabel (plain_label\<lparr>valued := True\<rparr>)))"
  by (simp add: label_class_list_render class_list_floating_label floating_label_defaultProps_def
      plain_label_def isActive_def truthy_bool_def default_to_def supplied_label_classes_def)

text \<open>
  Claim C9, amended. For a label whose own \<open>className\<close> holds neither token, the
  modifier \<open>active\<close> is present exactly when \<open>active || valued\<close>, and the modifier
  \<open>inactive\<close> exactly when \<open>valued && !active\<close>. So a label with the modifier
  \<open>inactive\<close> always has the modifier \<open>active\<close> as well, and a label that neither has
  a value nor is active has neither.
\<close>

theorem FloatingLabel_modifiers:
  fixes p :: "('ref, 'other) floating_label_props"
  assumes "lit ''rmd-floating-label--active''
             \<notin> set (supplied_label_classes p)"
    and "lit ''rmd-floating-label--inactive''
             \<notin> set (supplied_label_classes p)"
  shows "(lit ''rmd-floating-label--active'' \<in> set (label_class_list (render_FloatingLabel p))
            \<longleftrightarrow> truthy_bool (label_props.active p) \<or> floating_label_props.valued p)
       \<and> (lit ''rmd-floating-label--inactive'' \<in> set (label_class_list (render_FloatingLabel p))
            \<longleftrightarrow> floating_label_props.valued p \<and> \<not> truthy_bool (label_props.active p))
       \<and> (lit ''rmd-floating-label--inactive'' \<in> set (label_class_list (render_FloatingLabel p))
            \<longrightarrow> lit ''rmd-floating-label--active'' \<in> set (label_class_list (render_FloatingLabel p)))
       \<and> (\<not> floating_label_props.valued p \<and> \<not> truthy_bool (label_props.active p) \<longrightarrow>
            lit ''rmd-floating-label--active'' \<notin> set (label_class_list (render_FloatingLabel p))
          \<and> lit ''rmd-floating-label--inactive'' \<notin> set (label_class_list (render_FloatingLabel p)))"
proof -
  let ?q = "floating_label_defaultProps p"
  have same: "supplied_label_classes ?q = supplied_label_classes p"
    "floating_label_props.valued ?q = floating_label_props.valued p"
    "truthy_bool (label_props.active ?q) = truthy_bool (label_props.active p)"
    by (simp_all add: floating_label_defaultProps_def truthy_default_False
        supplied_label_classes_def)
  have distinct: "lit ''rmd-floating-label--active'' \<noteq> lit ''rmd-floating-label''"
    "lit ''rmd-floating-label--active'' \<noteq> lit ''rmd-floating-label--dense''"
    "lit ''rmd-floating-label--active'' \<noteq> lit ''rmd-floating-label--inactive''"
    "lit ''rmd-floating-label--active'' \<noteq> lit ''rmd-floating-label--covering''"
    "lit ''rmd-floating-label--active'' \<noteq> lit ''rmd-floating-label--outline-active''"
    "lit ''rmd-floating-label--active'' \<noteq> lit ''rmd-floating-label--underline-left-offset''"
    "lit ''rmd-floating-label--inactive'' \<noteq> lit ''rmd-floating-label''"
    "lit ''rmd-floating-label--inactive'' \<noteq> lit ''rmd-floating-label--dense''"
    "lit ''rmd-floating-label--inactive'' \<noteq> lit ''rmd-floating-label--active''"
    "lit ''rmd-floating-label--inactive'' \<noteq> lit ''rmd-floating-label--covering''"
    "lit ''rmd-floating-label--inactive'' \<noteq> lit ''rmd-floating-label--outline-active''"
    "lit ''rmd-floating-label--inactive'' \<noteq> lit ''rmd-floating-label--underline-left-offset''"
    by (simp_all add: lit_def)
  have active: "lit ''rmd-floating-label--active'' \<in> set (label_class_list (render_FloatingLabel p))
      \<longleftrightarrow> truthy_bool (label_props.active p) \<or> floating_label_props.valued p"
    using assms(1)
    by (simp add: label_class_list_render class_list_floating_label same distinct isActive_def)
  have inactive: "lit ''rmd-floating-label--inactive'' \<in> set (label_class_list (render_FloatingLabel p))
      \<longleftrightarrow> floating_label_props.valued p \<and> \<not> truthy_bool (label_props.active p)"
    using assms(2)
    by (simp add: label_class_list_render class_list_floating_label same distinct isActive_def)
  from active inactive show ?thesis by blast
qed

theorem FloatingLabel_modifiers_witness:
  "lit ''rmd-floating-label--active'' \<notin> set (label_class_list (render_FloatingLabel plain_label))
   \<and> lit ''rmd-floating-label--inactive'' \<notin> set (label_class_list (render_FloatingLabel plain_label))
   \<and> lit ''rmd-floating-label--active''
       \<in> set (label_class_list (render_FloatingLabel (plain_label\<lparr>label_props.active := Some True\<rparr>)))
   \<and> lit ''rmd-floating-label--inactive''
       \<notin> set (label_class_list (render_FloatingLabel (plain_label\<lparr>label_props.active := Some True\<rparr>)))
   \<and> lit ''rmd-floating-label--inactive''
       \<in> set (label_class_list
             (render_FloatingLabel (plain_label\<lparr>floating_label_props.valued := True\<rparr>)))
   \<and> lit ''rmd-floating-label--active''
       \<in> set (label_class_list
             (render_FloatingLabel (plain_label\<lparr>floating_label_props.valued := True\<rparr>)))"
  using FloatingLabel_modifiers [of plain_label]
    FloatingLabel_modifiers [of "plain_label\<lparr>label_props.active := Some True\<rparr>"]
    FloatingLabel_modifiers [of "plain_label\<lparr>floating_label_props.valued := True\<rparr>"]
  by (simp add: plain_label_def truthy_bool_def supplied_label_classes_def)


section \<open>ConditionalPortal\<close>

text \<open>
  Claim C2. When \<open>portal\<close>, \<open>portalInto\<close> and \<open>portalIntoId\<close> are all absent or
  falsy (\<open>false\<close>, \<open>null\<close>, the empty string), the component returns its children
  as they are, \<open>null\<close> included. In every other case it returns a \<open>Portal\<close> element
  around the children that is given \<open>portalInto\<close> as \<open>into\<close>, \<open>portalIntoId\<close> as
  \<open>intoId\<close> and \<open>visible\<close>.
\<close>

theorem ConditionalPortal_result:
  fixes p :: "'c conditional_portal_props"
  shows
    "(conditional_portal_props.portal p \<in> {None, Some False}
        \<and> conditional_portal_props.portalInto p \<in> {None, Some IntoNull, Some (IntoString [])}
        \<and> conditional_portal_props.portalIntoId p \<in> {None, Some []}
      \<longrightarrow> ConditionalPortal p = Children (conditional_portal_props.children p))
   \<and> (\<not> (conditional_portal_props.portal p \<in> {None, Some False}
        \<and> conditional_portal_props.portalInto p \<in> {None, Some IntoNull, Some (IntoString [])}
        \<and> conditional_portal_props.portalIntoId p \<in> {None, Some []})
      \<longrightarrow> ConditionalPortal p =
            Portal (conditional_portal_props.portalInto p) (conditional_portal_props.portalIntoId p)
              (conditional_portal_props.visible p) (conditional_portal_props.children p))"
proof -
  let ?falsy = "conditional_portal_props.portal p \<in> {None, Some False}
        \<and> conditional_portal_props.portalInto p \<in> {None, Some IntoNull, Some (IntoString [])}
        \<and> conditional_portal_props.portalIntoId p \<in> {None, Some []}"
  have portal: "truthy_bool b \<longleftrightarrow> b \<notin> {None, Some False}" for b
    by (cases b) (simp_all add: truthy_bool_def)
  have into: "truthy_into v \<longleftrightarrow> v \<notin> {None, Some IntoNull, Some (IntoString [])}" for v
  proof (cases v)
    case None
    then show ?thesis by (simp add: truthy_into_def)
  next
    case (Some t)
    then show ?thesis by (cases t) (simp_all add: truthy_into_def)
  qed
  have intoId: "truthy_string s \<longleftrightarrow> s \<notin> {None, Some []}" for s
    by (cases s) (simp_all add: truthy_string_def)
  have test: "(\<not> truthy_bool (conditional_portal_props.portal p)
        \<and> \<not> truthy_into (conditional_portal_props.portalInto p)
        \<and> \<not> truthy_string (conditional_portal_props.portalIntoId p)) \<longleftrightarrow> ?falsy"
    by (simp only: portal into intoId not_not)
  show ?thesis
    by (simp only: ConditionalPortal_def test if_True if_False split: if_split) blast
qed


theorem ConditionalPortal_result_witness:
  "ConditionalPortal plain_portal = Children (Some 0)
   \<and> ConditionalPortal (plain_portal\<lparr>conditional_portal_props.children := None\<rparr>) = Children None
   \<and> ConditionalPortal (plain_portal\<lparr>conditional_portal_props.portal := Some True\<rparr>)
       = Portal None None True (Some 0)
   \<and> ConditionalPortal (plain_portal\<lparr>conditional_portal_props.portalIntoId := Some (lit ''root'')\<rparr>)
       = Portal None (Some (lit ''root'')) True (Some 0)
   \<and> ConditionalPortal (plain_portal\<lparr>conditional_portal_props.portalInto := Some (IntoObject 1),
        conditional_portal_props.visible := False\<rparr>)
       = Portal (Some (IntoObject 1)) None False (Some 0)"
  using ConditionalPortal_result [of plain_portal]
    ConditionalPortal_result [of "plain_portal\<lparr>conditional_portal_props.children := None\<rparr>"]
    ConditionalPortal_result [of "plain_portal\<lparr>conditional_portal_props.portal := Some True\<rparr>"]
    ConditionalPortal_result
      [of "plain_portal\<lparr>conditional_portal_props.portalIntoId := Some (lit ''root'')\<rparr>"]
    ConditionalPortal_result
      [of "plain_portal\<lparr>conditional_portal_props.portalInto := Some (IntoObject 1),
        conditional_portal_props.visible := False\<rparr>"]
  by (simp add: plain_portal_def lit_def)



section \<open>DemoPage: the font links\<close>

lemma replace_whitespace_takeWhile:
  "replace_whitespace cs =
     takeWhile (\<lambda>d. \<not> is_whitespace d) cs
     @ replace_whitespace (dropWhile (\<lambda>d. \<not> is_whitespace d) cs)"
  by (induction cs) simp_all

lemma replace_whitespace_runs: "replace_whitespace name = plus_for_runs name"
proof (induction name rule: runs.induct)
  case 1
  show ?case by (simp add: plus_for_runs_def)
next
  case (2 c cs)
  show ?case
  proof (cases "is_whitespace c")
    case True
    then have same: "(\<lambda>d. is_whitespace d = is_whitespace c) = is_whitespace"
      by auto
    from True 2 show ?thesis
      by (simp add: plus_for_runs_def same)
  next
    case False
    then have same: "(\<lambda>d. is_whitespace d = is_whitespace c) = (\<lambda>d. \<not> is_whitespace d)"
      by auto
    from False have "replace_whitespace (c # cs) = c # replace_whitespace cs"
      by simp
    also have "\<dots> = c # takeWhile (\<lambda>d. \<not> is_whitespace d) cs
        @ replace_whitespace (dropWhile (\<lambda>d. \<not> is_whitespace d) cs)"
      using replace_whitespace_takeWhile [of cs] by simp
    also have "\<dots> = plus_for_runs (c # cs)"
      using False 2 by (simp add: plus_for_runs_def same)
    finally show ?thesis .
  qed
qed

lemma replace_whitespace_clean: "\<forall>c \<in> set (replace_whitespace name). \<not> is_whitespace c"
proof (induction name rule: replace_whitespace.induct)
  case 1
  show ?case by simp
next
  case (2 c cs)
  have plus: "\<not> is_whitespace 0x2B"
    by (simp add: is_whitespace_def)
  from 2 plus show ?case
    by (cases "is_whitespace c") (simp_all add: lit_def)
qed

text \<open>
  Claim C10. The head of a demo page holds one link per font of the list, in the order of
  the list and keyed by the name of the font; there is none when \<open>fonts\<close> is not given.
  Each link is a stylesheet. Its \<open>href\<close> is the fixed cdnjs URL of Font Awesome 4.6.3 when
  the name is exactly \<open>Font Awesome\<close>, and otherwise the Google Fonts URL around the
  name in which every run of white space is one \<open>+\<close>, so that no white space is left.
\<close>

theorem DemoPage_font_links:
  "DemoPage_head None = []
   \<and> length (DemoPage_head (Some fonts)) = length fonts
   \<and> (\<forall>i < length fonts.
         key (DemoPage_head (Some fonts) ! i) = fonts ! i
       \<and> rel (DemoPage_head (Some fonts) ! i) = lit ''stylesheet''
       \<and> href (DemoPage_head (Some fonts) ! i) =
           (if fonts ! i = lit ''Font Awesome''
            then lit ''https://cdnjs.cloudflare.com/ajax/libs/font-awesome/4.6.3/css/font-awesome.min.css''
            else lit ''https://fonts.googleapis.com/css2?family='' @ plus_for_runs (fonts ! i)
                 @ lit ''&display=swap'')
       \<and> (\<forall>c \<in> set (plus_for_runs (fonts ! i)). \<not> is_whitespace c))"
proof -
  have clean: "\<forall>c \<in> set (plus_for_runs name). \<not> is_whitespace c" for name
    using replace_whitespace_clean [of name] by (simp add: replace_whitespace_runs)
  show ?thesis
    by (simp add: DemoPage_head_def font_link_def font_href_def replace_whitespace_runs clean)
qed

theorem DemoPage_font_links_witness:
  "length (DemoPage_head (Some [lit ''Font Awesome'', lit ''Roboto  Mono''])) = 2
   \<and> key (DemoPage_head (Some [lit ''Font Awesome'', lit ''Roboto  Mono'']) ! 0) = lit ''Font Awesome''
   \<and> href (DemoPage_head (Some [lit ''Font Awesome'', lit ''Roboto  Mono'']) ! 0)
       = lit ''https://cdnjs.cloudflare.com/ajax/libs/font-awesome/4.6.3/css/font-awesome.min.css''
   \<and> key (DemoPage_head (Some [lit ''Font Awesome'', lit ''Roboto  Mono'']) ! 1) = lit ''Roboto  Mono''
   \<and> href (DemoPage_head (Some [lit ''Font Awesome'', lit ''Roboto  Mono'']) ! 1)
       = lit ''https://fonts.googleapis.com/css2?family=Roboto+Mono&display=swap''
   \<and> plus_for_runs (lit ''Roboto  Mono'') = lit ''Roboto+Mono''
   \<and> \<not> is_whitespace 0x2B"
proof -
  have name: "plus_for_runs (lit ''Roboto  Mono'') = lit ''Roboto+Mono''"
    by (simp add: plus_for_runs_def is_whitespace_def lit_def)
  have other: "lit ''Roboto  Mono'' \<noteq> lit ''Font Awesome''"
    by (simp add: lit_def)
  have url: "lit ''https://fonts.googleapis.com/css2?family='' @ lit ''Roboto+Mono''
      @ lit ''&display=swap'' = lit ''https://fonts.googleapis.com/css2?family=Roboto+Mono&display=swap''"
    by (simp add: lit_def)
  from DemoPage_font_links [of "[lit ''Font Awesome'', lit ''Roboto  Mono'']"]
  have "\<forall>i < 2.
         key (DemoPage_head (Some [lit ''Font Awesome'', lit ''Roboto  Mono'']) ! i)
           = [lit ''Font Awesome'', lit ''Roboto  Mono''] ! i
       \<and> href (DemoPage_head (Some [lit ''Font Awesome'', lit ''Roboto  Mono'']) ! i) =
           (if [lit ''Font Awesome'', lit ''Roboto  Mono''] ! i = lit ''Font Awesome''
            then lit ''https://cdnjs.cloudflare.com/ajax/libs/font-awesome/4.6.3/css/font-awesome.min.css''
            else lit ''https://fonts.googleapis.com/css2?family=''
                 @ plus_for_runs ([lit ''Font Awesome'', lit ''Roboto  Mono''] ! i)
                 @ lit ''&display=swap'')"
    and len: "length (DemoPage_head (Some [lit ''Font Awesome'', lit ''Roboto  Mono''])) = 2"
    by simp_all
  then have "key (DemoPage_head (Some [lit ''Font Awesome'', lit ''Roboto  Mono'']) ! 0)
           = [lit ''Font Awesome'', lit ''Roboto  Mono''] ! 0
       \<and> href (DemoPage_head (Some [lit ''Font Awesome'', lit ''Roboto  Mono'']) ! 0) =
           (if [lit ''Font Awesome'', lit ''Roboto  Mono''] ! 0 = lit ''Font Awesome''
            then lit ''https://cdnjs.cloudflare.com/ajax/libs/font-awesome/4.6.3/css/font-awesome.min.css''
            else lit ''https://fonts.googleapis.com/css2?family=''
                 @ plus_for_runs ([lit ''Font Awesome'', lit ''Roboto  Mono''] ! 0)
                 @ lit ''&display=swap'')"
    and "key (DemoPage_head (Some [lit ''Font Awesome'', lit ''Roboto  Mono'']) ! 1)
           = [lit ''Font Awesome'', lit ''Roboto  Mono''] ! 1
       \<and> href (DemoPage_head (Some [lit ''Font Awesome'', lit ''Roboto  Mono'']) ! 1) =
           (if [lit ''Font Awesome'', lit ''Roboto  Mono''] ! 1 = lit ''Font Awesome''
            then lit ''https://cdnjs.cloudflare.com/ajax/libs/font-awesome/4.6.3/css/font-awesome.min.css''
            else lit ''https://fonts.googleapis.com/css2?family=''
                 @ plus_for_runs ([lit ''Font Awesome'', lit ''Roboto  Mono''] ! 1)
                 @ lit ''&display=swap'')"
    by simp_all
  moreover have member:
    "0x2B \<in> set (plus_for_runs ([lit ''Font Awesome'', lit ''Roboto  Mono''] ! 1))"
    by (simp add: name, simp add: lit_def)
  have second: "1 < length [lit ''Font Awesome'', lit ''Roboto  Mono'']"
    by simp
  note link = DemoPage_font_links [of "[lit ''Font Awesome'', lit ''Roboto  Mono'']",
      THEN conjunct2, THEN conjunct2, rule_format, OF second]
  from link [THEN conjunct2, THEN conjunct2, THEN conjunct2] member
  have "\<not> is_whitespace 0x2B"
    by (rule bspec)
  ultimately show ?thesis
    using len by (simp add: name other url)
qed



section \<open>Prop types are assigned in development only, and only when the package is there\<close>

lemma require_PropTypes_cases:
  "require_PropTypes env =
     Inr (case require env (lit ''prop-types'') of Inl e \<Rightarrow> None | Inr m \<Rightarrow> Some m)"
  by (simp add: require_PropTypes_def try_catch_def bind_result_def split: sum.splits)

text \<open>
  Claim C4. For each of \<open>Select\<close>, \<open>FloatingLabel\<close>, \<open>ConditionalPortal\<close> and
  \<open>GridCell\<close>, the evaluation of the module ends without an error and: with
  \<open>NODE_ENV\<close> equal to \<open>production\<close> no prop types are assigned; when
  \<open>require("prop-types")\<close> throws, the error is caught and the prop types stay unassigned;
  and in the remaining case, development with the package, they are assigned.
\<close>

theorem propTypes_guard:
  "(NODE_ENV env = Some (lit ''production'') \<longrightarrow>
        Select_statics env = Inr \<lparr>displayName = None, propTypes = None\<rparr>
      \<and> FloatingLabel_statics env = Inr \<lparr>displayName = None, propTypes = None\<rparr>
      \<and> ConditionalPortal_statics env = Inr \<lparr>displayName = None, propTypes = None\<rparr>
      \<and> GridCell_statics env = Inr \<lparr>displayName = None, propTypes = None\<rparr>)
   \<and> (\<forall>e. NODE_ENV env \<noteq> Some (lit ''production'')
          \<and> require env (lit ''prop-types'') = Inl e \<longrightarrow>
        Select_statics env = Inr \<lparr>displayName = Some (lit ''Select''), propTypes = None\<rparr>
      \<and> FloatingLabel_statics env
          = Inr \<lparr>displayName = Some (lit ''FloatingLabel''), propTypes = None\<rparr>
      \<and> ConditionalPortal_statics env = Inr \<lparr>displayName = None, propTypes = None\<rparr>
      \<and> GridCell_statics env = Inr \<lparr>displayName = Some (lit ''GridCell''), propTypes = None\<rparr>)
   \<and> (\<forall>m. NODE_ENV env \<noteq> Some (lit ''production'')
          \<and> require env (lit ''prop-types'') = Inr m \<longrightarrow>
        Select_statics env
          = Inr \<lparr>displayName = Some (lit ''Select''), propTypes = Some (Select_propTypes m)\<rparr>
      \<and> FloatingLabel_statics env
          = Inr \<lparr>displayName = Some (lit ''FloatingLabel''),
                 propTypes = Some (FloatingLabel_propTypes m)\<rparr>
      \<and> ConditionalPortal_statics env
          = Inr \<lparr>displayName = None, propTypes = Some (ConditionalPortal_propTypes m)\<rparr>
      \<and> GridCell_statics env
          = Inr \<lparr>displayName = Some (lit ''GridCell''), propTypes = Some (GridCell_propTypes m)\<rparr>)"
proof (intro conjI allI impI)
  assume "NODE_ENV env = Some (lit ''production'')"
  then show "Select_statics env = Inr \<lparr>displayName = None, propTypes = None\<rparr>"
    and "FloatingLabel_statics env = Inr \<lparr>displayName = None, propTypes = None\<rparr>"
    and "ConditionalPortal_statics env = Inr \<lparr>displayName = None, propTypes = None\<rparr>"
    and "GridCell_statics env = Inr \<lparr>displayName = None, propTypes = None\<rparr>"
    by (simp_all add: Select_statics_def FloatingLabel_statics_def ConditionalPortal_statics_def
        GridCell_statics_def)
next
  fix e
  assume "NODE_ENV env \<noteq> Some (lit ''production'') \<and> require env (lit ''prop-types'') = Inl e"
  then show "Select_statics env = Inr \<lparr>displayName = Some (lit ''Select''), propTypes = None\<rparr>"
    and "FloatingLabel_statics env
          = Inr \<lparr>displayName = Some (lit ''FloatingLabel''), propTypes = None\<rparr>"
    and "ConditionalPortal_statics env = Inr \<lparr>displayName = None, propTypes = None\<rparr>"
    and "GridCell_statics env = Inr \<lparr>displayName = Some (lit ''GridCell''), propTypes = None\<rparr>"
    by (simp_all add: Select_statics_def FloatingLabel_statics_def ConditionalPortal_statics_def
        GridCell_statics_def require_PropTypes_cases bind_result_def)
next
  fix m
  assume "NODE_ENV env \<noteq> Some (lit ''production'') \<and> require env (lit ''prop-types'') = Inr m"
  then show "Select_statics env
          = Inr \<lparr>displayName = Some (lit ''Select''), propTypes = Some (Select_propTypes m)\<rparr>"
    and "FloatingLabel_statics env
          = Inr \<lparr>displayName = Some (lit ''FloatingLabel''),
                 propTypes = Some (FloatingLabel_propTypes m)\<rparr>"
    and "ConditionalPortal_statics env
          = Inr \<lparr>displayName = None, propTypes = Some (ConditionalPortal_propTypes m)\<rparr>"
    and "GridCell_statics env
          = Inr \<lparr>displayName = Some (lit ''GridCell''), propTypes = Some (GridCell_propTypes m)\<rparr>"
    by (simp_all add: Select_statics_def FloatingLabel_statics_def ConditionalPortal_statics_def
        GridCell_statics_def require_PropTypes_cases bind_result_def)
qed

theorem propTypes_guard_witness:
  "Select_statics production_env = Inr \<lparr>displayName = None, propTypes = None\<rparr>
   \<and> GridCell_statics production_env = Inr \<lparr>displayName = None, propTypes = None\<rparr>
   \<and> Select_statics bare_development_env
       = Inr \<lparr>displayName = Some (lit ''Select''), propTypes = None\<rparr>
   \<and> ConditionalPortal_statics bare_development_env = Inr \<lparr>displayName = None, propTypes = None\<rparr>
   \<and> FloatingLabel_statics development_env
       = Inr \<lparr>displayName = Some (lit ''FloatingLabel''),
              propTypes = Some (FloatingLabel_propTypes PropTypesModule)\<rparr>"
proof -
  have production: "NODE_ENV production_env = Some (lit ''production'')"
    by (simp add: production_env_def)
  have bare: "NODE_ENV bare_development_env \<noteq> Some (lit ''production'')
      \<and> require bare_development_env (lit ''prop-types'') = Inl (ModuleNotFound (lit ''prop-types''))"
    by (simp add: bare_development_env_def lit_def)
  have development: "NODE_ENV development_env \<noteq> Some (lit ''production'')
      \<and> require development_env (lit ''prop-types'') = Inr PropTypesModule"
    by (simp add: development_env_def lit_def)
  from propTypes_guard [of production_env] propTypes_guard [of bare_development_env]
    propTypes_guard [of development_env] production bare development
  show ?thesis by blast
qed



section \<open>Select: what a render hands to its elements\<close>

lemma find_option_total:
  "(\<And>x. \<exists>b. pr x = Inr b) \<Longrightarrow> \<exists>r. find_option pr xs = Inr r"
proof (induction xs)
  case Nil
  show ?case by simp
next
  case (Cons x xs)
  from Cons.prems obtain b where "pr x = Inr b" by blast
  with Cons show ?case by (cases b) auto
qed

lemma displayValue_defined:
  assumes "getOptionValue p = Some f" and "getDisplayLabel p = Some g"
  shows "\<exists>d. displayValue p = Inr d"
proof -
  have "\<exists>r. find_option
          (\<lambda>option. call_prop (getOptionValue p)
             (\<lambda>f. strict_equals (f option (valueKey p)) (value p)))
          (options p) = Inr r"
    by (rule find_option_total) (simp add: call_prop_def assms)
  then show ?thesis
    by (auto simp: displayValue_def bind_result_def call_prop_def assms Let_def)
qed

lemma Select_defined:
  assumes "getOptionValue p = Some f" and "getDisplayLabel p = Some g"
  shows "\<exists>out. Select p st = Inr out"
proof -
  from displayValue_defined [OF assms] obtain d where "displayValue p = Inr d" by blast
  then show ?thesis
    by (simp add: Select_def bind_result_def Let_def)
qed

lemma default_to_Some: "\<exists>v. default_to d x = Some v"
  by (cases x) (simp_all add: default_to_def)

lemma render_Select_defined: "\<exists>out. render_Select utils p st = Inr out"
proof -
  obtain f where f: "getOptionValue (Select_defaultProps utils p) = Some f"
    using default_to_Some [of "DEFAULT_GET_ITEM_VALUE utils" "getOptionValue p"]
    by (auto simp: Select_defaultProps_def)
  obtain g where g: "getDisplayLabel (Select_defaultProps utils p) = Some g"
    using default_to_Some [of "DEFAULT_GET_DISPLAY_LABEL utils" "getDisplayLabel p"]
    by (auto simp: Select_defaultProps_def)
  from Select_defined [OF f g] show ?thesis
    by (simp add: render_Select_def)
qed

lemma Select_listbox:
  "Select p st = Inr out \<Longrightarrow>
     listbox_value (listbox out) = value p
   \<and> listbox_onChange (listbox out) = onChange p
   \<and> listbox_visible (listbox out) = visible st
   \<and> listbox_portal (listbox out) = portal p
   \<and> listbox_labelKey (listbox out) = labelKey p
   \<and> listbox_valueKey (listbox out) = valueKey p
   \<and> listbox_getOptionId (listbox out) = getOptionId p
   \<and> listbox_getOptionLabel (listbox out) = getOptionLabel p
   \<and> listbox_getOptionValue (listbox out) = getOptionValue p
   \<and> listbox_disableMovementChange (listbox out) = disableMovementChange p"
  by (auto simp: Select_def bind_result_def Let_def split: sum.splits)

lemma Select_container:
  "Select p st = Inr out \<Longrightarrow>
     container_options (container out) =
       \<lparr>theme = theme p, dense = dense p, inline = inline p, error = error p,
        underlineDirection = underlineDirection p, isLeftAddon = isLeftAddon p,
        isRightAddon = isRightAddon p, leftChildren = leftChildren p,
        rightChildren = rightChildren p\<rparr>
   \<and> container_disabled (container out) = disabled p
   \<and> floating_label_props.valued (floatingLabel out) = is_valued (value p)"
  by (auto simp: Select_def bind_result_def Let_def split: sum.splits)



lemma find_option_find: "find_option (\<lambda>x. Inr (P x)) xs = Inr (List.find P xs)"
  by (induction xs) simp_all

lemma displayValue_current_option:
  assumes "getOptionValue p = Some f" and "getDisplayLabel p = Some g"
  shows "displayValue p =
    Inr (g (current_option f (valueKey p) (value p) (options p)) (labelKey p)
           (\<not> truthy_bool (disableLeftAddon p)))"
  by (simp add: displayValue_def call_prop_def assms find_option_find bind_result_def
      current_option_def Let_def)

lemma Select_value_children:
  assumes "Select p st = Inr out" and "getOptionValue p = Some f" and "getDisplayLabel p = Some g"
  shows "value_children (valueElement out) =
    display_or_placeholder
      (g (current_option f (valueKey p) (value p) (options p)) (labelKey p)
         (\<not> truthy_bool (disableLeftAddon p)))
      (is_valued (value p)) (placeholder p)"
  using assms(1)
  by (auto simp: Select_def displayValue_current_option [OF assms(2,3)] bind_result_def Let_def)

section \<open>Select: the default props\<close>

text \<open>
  Claim C5. A render of \<open>Select\<close> raises no error, whichever optional props are left
  out. Every prop of \<open>DefaultProps\<close> that is left \<open>undefined\<close> has its declared default
  after the defaults are put in: \<open>portal\<close> true, \<open>theme\<close> outline, \<open>labelKey\<close>
  label, \<open>valueKey\<close> value, \<open>disabled\<close>, \<open>error\<close>, \<open>dense\<close>, \<open>inline\<close>,
  \<open>disableLeftAddon\<close> and \<open>disableMovementChange\<close> false, the two addon flags true,
  the underline from the left, the drop-down icon, and the four default functions. These
  are the values that the render hands to the list and to the container, and the ones from
  which it computes the displayed value: the default \<open>getDisplayLabel\<close> is called with the
  option that the default \<open>getOptionValue\<close> and \<open>valueKey\<close> find, with the default
  \<open>labelKey\<close>, and with the left addon included.
\<close>

theorem Select_defaults:
  fixes p :: "('ref, 'o, 'cb, 'other) select_props"
  shows
    "(\<exists>out. render_Select utils p st = Inr out)
   \<and> ((portal p = None \<longrightarrow> portal (Select_defaultProps utils p) = Some True)
   \<and> (theme p = None \<longrightarrow> theme (Select_defaultProps utils p) = Some (lit ''outline''))
   \<and> (dense p = None \<longrightarrow> dense (Select_defaultProps utils p) = Some False)
   \<and> (inline p = None \<longrightarrow> inline (Select_defaultProps utils p) = Some False)
   \<and> (error p = None \<longrightarrow> error (Select_defaultProps utils p) = Some False)
   \<and> (disabled p = None \<longrightarrow> disabled (Select_defaultProps utils p) = Some False)
   \<and> (isLeftAddon p = None \<longrightarrow> isLeftAddon (Select_defaultProps utils p) = Some True)
   \<and> (isRightAddon p = None \<longrightarrow> isRightAddon (Select_defaultProps utils p) = Some True)
   \<and> (underlineDirection p = None \<longrightarrow>
        underlineDirection (Select_defaultProps utils p) = Some (lit ''left''))
   \<and> (rightChildren p = None \<longrightarrow>
        rightChildren (Select_defaultProps utils p) = Some arrow_drop_down)
   \<and> (labelKey p = None \<longrightarrow> labelKey (Select_defaultProps utils p) = Some (lit ''label''))
   \<and> (valueKey p = None \<longrightarrow> valueKey (Select_defaultProps utils p) = Some (lit ''value''))
   \<and> (getOptionId p = None \<longrightarrow>
        getOptionId (Select_defaultProps utils p) = Some (DEFAULT_GET_OPTION_ID utils))
   \<and> (getOptionLabel p = None \<longrightarrow>
        getOptionLabel (Select_defaultProps utils p) = Some (DEFAULT_GET_OPTION_LABEL utils))
   \<and> (getOptionValue p = None \<longrightarrow>
        getOptionValue (Select_defaultProps utils p) = Some (DEFAULT_GET_ITEM_VALUE utils))
   \<and> (getDisplayLabel p = None \<longrightarrow>
        getDisplayLabel (Select_defaultProps utils p) = Some (DEFAULT_GET_DISPLAY_LABEL utils))
   \<and> (disableLeftAddon p = None \<longrightarrow>
        disableLeftAddon (Select_defaultProps utils p) = Some False)
   \<and> (disableMovementChange p = None \<longrightarrow>
        disableMovementChange (Select_defaultProps utils p) = Some False))
   \<and> (\<forall>out. render_Select utils p st = Inr out \<longrightarrow>
          listbox_portal (listbox out) = portal (Select_defaultProps utils p)
        \<and> listbox_labelKey (listbox out) = labelKey (Select_defaultProps utils p)
        \<and> listbox_valueKey (listbox out) = valueKey (Select_defaultProps utils p)
        \<and> listbox_getOptionId (listbox out) = getOptionId (Select_defaultProps utils p)
        \<and> listbox_getOptionLabel (listbox out) = getOptionLabel (Select_defaultProps utils p)
        \<and> listbox_getOptionValue (listbox out) = getOptionValue (Select_defaultProps utils p)
        \<and> listbox_disableMovementChange (listbox out)
            = disableMovementChange (Select_defaultProps utils p)
        \<and> theme (container_options (container out)) = theme (Select_defaultProps utils p)
        \<and> dense (container_options (container out)) = dense (Select_defaultProps utils p)
        \<and> inline (container_options (container out)) = inline (Select_defaultProps utils p)
        \<and> error (container_options (container out)) = error (Select_defaultProps utils p)
        \<and> underlineDirection (container_options (container out))
            = underlineDirection (Select_defaultProps utils p)
        \<and> isLeftAddon (container_options (container out))
            = isLeftAddon (Select_defaultProps utils p)
        \<and> isRightAddon (container_options (container out))
            = isRightAddon (Select_defaultProps utils p)
        \<and> rightChildren (container_options (container out))
            = rightChildren (Select_defaultProps utils p)
        \<and> container_disabled (container out) = disabled (Select_defaultProps utils p))
   \<and> (\<forall>out. render_Select utils p st = Inr out \<longrightarrow>
          value_children (valueElement out) =
            display_or_placeholder
              ((case getDisplayLabel p of None \<Rightarrow> DEFAULT_GET_DISPLAY_LABEL utils | Some g \<Rightarrow> g)
                 (current_option
                    (case getOptionValue p of None \<Rightarrow> DEFAULT_GET_ITEM_VALUE utils | Some f \<Rightarrow> f)
                    (Some (case valueKey p of None \<Rightarrow> lit ''value'' | Some k \<Rightarrow> k))
                    (value p) (options p))
                 (Some (case labelKey p of None \<Rightarrow> lit ''label'' | Some k \<Rightarrow> k))
                 (case disableLeftAddon p of None \<Rightarrow> True | Some b \<Rightarrow> \<not> b))
              (is_valued (value p)) (placeholder p))"
proof -
  have defaults:
    "portal p = None \<longrightarrow> portal (Select_defaultProps utils p) = Some True"
    "theme p = None \<longrightarrow> theme (Select_defaultProps utils p) = Some (lit ''outline'')"
    "dense p = None \<longrightarrow> dense (Select_defaultProps utils p) = Some False"
    "inline p = None \<longrightarrow> inline (Select_defaultProps utils p) = Some False"
    "error p = None \<longrightarrow> error (Select_defaultProps utils p) = Some False"
    "disabled p = None \<longrightarrow> disabled (Select_defaultProps utils p) = Some False"
    "isLeftAddon p = None \<longrightarrow> isLeftAddon (Select_defaultProps utils p) = Some True"
    "isRightAddon p = None \<longrightarrow> isRightAddon (Select_defaultProps utils p) = Some True"
    "underlineDirection p = None \<longrightarrow>
        underlineDirection (Select_defaultProps utils p) = Some (lit ''left'')"
    "rightChildren p = None \<longrightarrow>
        rightChildren (Select_defaultProps utils p) = Some arrow_drop_down"
    "labelKey p = None \<longrightarrow> labelKey (Select_defaultProps utils p) = Some (lit ''label'')"
    "valueKey p = None \<longrightarrow> valueKey (Select_defaultProps utils p) = Some (lit ''value'')"
    "getOptionId p = None \<longrightarrow>
        getOptionId (Select_defaultProps utils p) = Some (DEFAULT_GET_OPTION_ID utils)"
    "getOptionLabel p = None \<longrightarrow>
        getOptionLabel (Select_defaultProps utils p) = Some (DEFAULT_GET_OPTION_LABEL utils)"
    "getOptionValue p = None \<longrightarrow>
        getOptionValue (Select_defaultProps utils p) = Some (DEFAULT_GET_ITEM_VALUE utils)"
    "getDisplayLabel p = None \<longrightarrow>
        getDisplayLabel (Select_defaultProps utils p) = Some (DEFAULT_GET_DISPLAY_LABEL utils)"
    "disableLeftAddon p = None \<longrightarrow>
        disableLeftAddon (Select_defaultProps utils p) = Some False"
    "disableMovementChange p = None \<longrightarrow>
        disableMovementChange (Select_defaultProps utils p) = Some False"
    by (simp_all add: Select_defaultProps_def default_to_def)
  have used: "render_Select utils p st = Inr out \<longrightarrow>
          listbox_portal (listbox out) = portal (Select_defaultProps utils p)
        \<and> listbox_labelKey (listbox out) = labelKey (Select_defaultProps utils p)
        \<and> listbox_valueKey (listbox out) = valueKey (Select_defaultProps utils p)
        \<and> listbox_getOptionId (listbox out) = getOptionId (Select_defaultProps utils p)
        \<and> listbox_getOptionLabel (listbox out) = getOptionLabel (Select_defaultProps utils p)
        \<and> listbox_getOptionValue (listbox out) = getOptionValue (Select_defaultProps utils p)
        \<and> listbox_disableMovementChange (listbox out)
            = disableMovementChange (Select_defaultProps utils p)
        \<and> theme (container_options (container out)) = theme (Select_defaultProps utils p)
        \<and> dense (container_options (container out)) = dense (Select_defaultProps utils p)
        \<and> inline (container_options (container out)) = inline (Select_defaultProps utils p)
        \<and> error (container_options (container out)) = error (Select_defaultProps utils p)
        \<and> underlineDirection (container_options (container out))
            = underlineDirection (Select_defaultProps utils p)
        \<and> isLeftAddon (container_options (container out))
            = isLeftAddon (Select_defaultProps utils p)
        \<and> isRightAddon (container_options (container out))
            = isRightAddon (Select_defaultProps utils p)
        \<and> rightChildren (container_options (container out))
            = rightChildren (Select_defaultProps utils p)
        \<and> container_disabled (container out) = disabled (Select_defaultProps utils p)" for out
  proof
    assume "render_Select utils p st = Inr out"
    then have out: "Select (Select_defaultProps utils p) st = Inr out"
      by (simp add: render_Select_def)
    from Select_listbox [OF out] Select_container [OF out] show
         "listbox_portal (listbox out) = portal (Select_defaultProps utils p)
        \<and> listbox_labelKey (listbox out) = labelKey (Select_defaultProps utils p)
        \<and> listbox_valueKey (listbox out) = valueKey (Select_defaultProps utils p)
        \<and> listbox_getOptionId (listbox out) = getOptionId (Select_defaultProps utils p)
        \<and> listbox_getOptionLabel (listbox out) = getOptionLabel (Select_defaultProps utils p)
        \<and> listbox_getOptionValue (listbox out) = getOptionValue (Select_defaultProps utils p)
        \<and> listbox_disableMovementChange (listbox out)
            = disableMovementChange (Select_defaultProps utils p)
        \<and> theme (container_options (container out)) = theme (Select_defaultProps utils p)
        \<and> dense (container_options (container out)) = dense (Select_defaultProps utils p)
        \<and> inline (container_options (container out)) = inline (Select_defaultProps utils p)
        \<and> error (container_options (container out)) = error (Select_defaultProps utils p)
        \<and> underlineDirection (container_options (container out))
            = underlineDirection (Select_defaultProps utils p)
        \<and> isLeftAddon (container_options (container out))
            = isLeftAddon (Select_defaultProps utils p)
        \<and> isRightAddon (container_options (container out))
            = isRightAddon (Select_defaultProps utils p)
        \<and> rightChildren (container_options (container out))
            = rightChildren (Select_defaultProps utils p)
        \<and> container_disabled (container out) = disabled (Select_defaultProps utils p)"
      by simp
  qed
  have displayed: "render_Select utils p st = Inr out \<longrightarrow>
          value_children (valueElement out) =
            display_or_placeholder
              ((case getDisplayLabel p of None \<Rightarrow> DEFAULT_GET_DISPLAY_LABEL utils | Some g \<Rightarrow> g)
                 (current_option
                    (case getOptionValue p of None \<Rightarrow> DEFAULT_GET_ITEM_VALUE utils | Some f \<Rightarrow> f)
                    (Some (case valueKey p of None \<Rightarrow> lit ''value'' | Some k \<Rightarrow> k))
                    (value p) (options p))
                 (Some (case labelKey p of None \<Rightarrow> lit ''label'' | Some k \<Rightarrow> k))
                 (case disableLeftAddon p of None \<Rightarrow> True | Some b \<Rightarrow> \<not> b))
              (is_valued (value p)) (placeholder p)" for out
  proof
    let ?q = "Select_defaultProps utils p"
    assume "render_Select utils p st = Inr out"
    then have out: "Select ?q st = Inr out"
      by (simp add: render_Select_def)
    have f: "getOptionValue ?q
        = Some (case getOptionValue p of None \<Rightarrow> DEFAULT_GET_ITEM_VALUE utils | Some f \<Rightarrow> f)"
      by (simp add: Select_defaultProps_def default_to_def split: option.splits)
    have g: "getDisplayLabel ?q
        = Some (case getDisplayLabel p of None \<Rightarrow> DEFAULT_GET_DISPLAY_LABEL utils | Some g \<Rightarrow> g)"
      by (simp add: Select_defaultProps_def default_to_def split: option.splits)
    have rest: "valueKey ?q = Some (case valueKey p of None \<Rightarrow> lit ''value'' | Some k \<Rightarrow> k)"
      "labelKey ?q = Some (case labelKey p of None \<Rightarrow> lit ''label'' | Some k \<Rightarrow> k)"
      "(\<not> truthy_bool (disableLeftAddon ?q))
         = (case disableLeftAddon p of None \<Rightarrow> True | Some b \<Rightarrow> \<not> b)"
      "value ?q = value p" "options ?q = options p" "placeholder ?q = placeholder p"
      by (simp_all add: Select_defaultProps_def default_to_def truthy_bool_def
          split: option.splits)
    from Select_value_children [OF out f g]
    show "value_children (valueElement out) =
            display_or_placeholder
              ((case getDisplayLabel p of None \<Rightarrow> DEFAULT_GET_DISPLAY_LABEL utils | Some g \<Rightarrow> g)
                 (current_option
                    (case getOptionValue p of None \<Rightarrow> DEFAULT_GET_ITEM_VALUE utils | Some f \<Rightarrow> f)
                    (Some (case valueKey p of None \<Rightarrow> lit ''value'' | Some k \<Rightarrow> k))
                    (value p) (options p))
                 (Some (case labelKey p of None \<Rightarrow> lit ''label'' | Some k \<Rightarrow> k))
                 (case disableLeftAddon p of None \<Rightarrow> True | Some b \<Rightarrow> \<not> b))
              (is_valued (value p)) (placeholder p)"
      by (simp only: rest)
  qed
  show ?thesis
    by (intro conjI allI) (rule render_Select_defined defaults used displayed)+
qed

theorem Select_defaults_witness:
  "(\<exists>out. render_Select simple_utils plain_select initial_state = Inr out
       \<and> listbox_portal (listbox out) = Some True
       \<and> listbox_labelKey (listbox out) = Some (lit ''label'')
       \<and> listbox_valueKey (listbox out) = Some (lit ''value'')
       \<and> listbox_disableMovementChange (listbox out) = Some False
       \<and> theme (container_options (container out)) = Some (lit ''outline'')
       \<and> dense (container_options (container out)) = Some False
       \<and> error (container_options (container out)) = Some False
       \<and> container_disabled (container out) = Some False
       \<and> value_children (valueElement out) = Some (TextNode (lit ''a'')))
   \<and> disableLeftAddon (Select_defaultProps simple_utils plain_select) = Some False"
proof -
  note defaults = Select_defaults [of simple_utils plain_select initial_state]
  have omitted: "portal plain_select = None" "theme plain_select = None" "dense plain_select = None"
    "inline plain_select = None" "error plain_select = None" "disabled plain_select = None"
    "isLeftAddon plain_select = None" "isRightAddon plain_select = None"
    "underlineDirection plain_select = None" "rightChildren plain_select = None"
    "labelKey plain_select = None" "valueKey plain_select = None" "getOptionId plain_select = None"
    "getOptionLabel plain_select = None" "getOptionValue plain_select = None"
    "getDisplayLabel plain_select = None" "disableLeftAddon plain_select = None"
    "disableMovementChange plain_select = None"
    by (simp_all add: plain_select_def)
  from defaults [THEN conjunct1] obtain out
    where out: "render_Select simple_utils plain_select initial_state = Inr out" ..
  note filled = defaults [THEN conjunct2, THEN conjunct1, simplified omitted simp_thms]
  note used = defaults [THEN conjunct2, THEN conjunct2, THEN conjunct1, rule_format, OF out]
  note displayed = defaults [THEN conjunct2, THEN conjunct2, THEN conjunct2, rule_format, OF out]
  have current: "current_option (DEFAULT_GET_ITEM_VALUE simple_utils) (Some (lit ''value''))
      (value plain_select) (options plain_select) = Some (PrimitiveOption (Str (lit ''a'')))"
    by (simp add: current_option_def strict_equals_def simple_utils_def plain_select_def
        truthy_option_def lit_def)
  have label: "DEFAULT_GET_DISPLAY_LABEL simple_utils (Some (PrimitiveOption (Str (lit ''a''))))
      (Some (lit ''label'')) True = TextNode (lit ''a'')"
    by (simp add: simple_utils_def option_text_def)
  have shown: "display_or_placeholder (TextNode (lit ''a'')) (is_valued (value plain_select))
      (placeholder plain_select) = Some (TextNode (lit ''a''))"
    by (simp add: display_or_placeholder_def truthy_node_def lit_def)
  have children: "value_children (valueElement out) = Some (TextNode (lit ''a''))"
    using displayed by (simp add: omitted current label shown)
  have rendered: "render_Select simple_utils plain_select initial_state = Inr out
       \<and> listbox_portal (listbox out) = Some True
       \<and> listbox_labelKey (listbox out) = Some (lit ''label'')
       \<and> listbox_valueKey (listbox out) = Some (lit ''value'')
       \<and> listbox_disableMovementChange (listbox out) = Some False
       \<and> theme (container_options (container out)) = Some (lit ''outline'')
       \<and> dense (container_options (container out)) = Some False
       \<and> error (container_options (container out)) = Some False
       \<and> container_disabled (container out) = Some False
       \<and> value_children (valueElement out) = Some (TextNode (lit ''a''))"
    by (simp only: out used filled children simp_thms)
  have filled_addon: "disableLeftAddon (Select_defaultProps simple_utils plain_select) = Some False"
    by (simp only: filled)
  show ?thesis
    by (rule conjI, rule exI [of _ out], rule rendered, rule filled_addon)
qed



section \<open>Select: closing the list\<close>

text \<open>
  Claim C6. While the list is visible, a click outside the select and a request of the
  list to close both clear the \<open>visible\<close> flag and change nothing else of the state:
  the focus flag, the ref and the fixed style stay. The click has no other effect; the
  request also moves the focus to the element in \<open>selectRef\<close>, if there is one. Neither
  calls \<open>onChange\<close>, and the value that the next render hands to the list is still the
  \<open>value\<close> prop.
\<close>

theorem Select_close:
  fixes p :: "('ref, 'o, 'cb, 'other) select_props"
  assumes "visible st"
  shows
    "(\<forall>inside. \<not> (selectRef st \<noteq> None \<and> inside) \<longrightarrow>
        select_step p (WindowClickEvent inside) st = ([], st\<lparr>visible := False\<rparr>))
   \<and> select_step p ListboxRequestClose st =
        ((case selectRef st of None \<Rightarrow> [] | Some node \<Rightarrow> [FocusElement node]),
         st\<lparr>visible := False\<rparr>)
   \<and> (\<forall>ev \<in> {WindowClickEvent False, ListboxRequestClose}.
          (\<forall>e \<in> set (fst (select_step p ev st)). \<not> is_onChange_call e)
        \<and> \<not> visible (snd (select_step p ev st))
        \<and> focused (snd (select_step p ev st)) = focused st
        \<and> selectRef (snd (select_step p ev st)) = selectRef st
        \<and> fixedStyle (snd (select_step p ev st)) = fixedStyle st
        \<and> (\<forall>out. Select p (snd (select_step p ev st)) = Inr out \<longrightarrow>
              listbox_value (listbox out) = value p
            \<and> listbox_onChange (listbox out) = onChange p
            \<and> \<not> listbox_visible (listbox out)))"
proof -
  have outside: "\<not> (selectRef st \<noteq> None \<and> inside) \<longrightarrow>
      select_step p (WindowClickEvent inside) st = ([], st\<lparr>visible := False\<rparr>)" for inside
    using assms by (simp add: select_step_def outside_click_def hide_toggle_def)
  have keyboard: "select_step p ListboxRequestClose st =
      ((case selectRef st of None \<Rightarrow> [] | Some node \<Rightarrow> [FocusElement node]),
       st\<lparr>visible := False\<rparr>)"
    by (simp add: select_step_def handleKeyboardClose_def hide_toggle_def)
  have quiet: "\<forall>e \<in> set (case selectRef st of None \<Rightarrow> [] | Some node \<Rightarrow> [FocusElement node]).
      \<not> is_onChange_call (e :: ('ref, 'cb) effect)"
    by (cases "selectRef st") (simp_all add: is_onChange_call_def)
  have frame: "(\<forall>e \<in> set (fst (select_step p ev st)). \<not> is_onChange_call e)
        \<and> \<not> visible (snd (select_step p ev st))
        \<and> focused (snd (select_step p ev st)) = focused st
        \<and> selectRef (snd (select_step p ev st)) = selectRef st
        \<and> fixedStyle (snd (select_step p ev st)) = fixedStyle st
        \<and> (\<forall>out. Select p (snd (select_step p ev st)) = Inr out \<longrightarrow>
              listbox_value (listbox out) = value p
            \<and> listbox_onChange (listbox out) = onChange p
            \<and> \<not> listbox_visible (listbox out))"
    if closed: "select_step p ev st = (es, st\<lparr>visible := False\<rparr>)"
      and es: "\<forall>e \<in> set es. \<not> is_onChange_call e" for ev es
  proof -
    have "listbox_value (listbox out) = value p \<and> listbox_onChange (listbox out) = onChange p
        \<and> \<not> listbox_visible (listbox out)"
      if "Select p (st\<lparr>visible := False\<rparr>) = Inr out" for out
      using Select_listbox [OF that] by simp
    with closed es show ?thesis by simp
  qed
  have "\<not> (selectRef st \<noteq> None \<and> False)" by simp
  with outside have click: "select_step p (WindowClickEvent False) st = ([], st\<lparr>visible := False\<rparr>)"
    by (rule mp)
  have silent: "\<forall>e \<in> set ([] :: ('ref, 'cb) effect list). \<not> is_onChange_call e" by simp
  have both: "\<forall>ev \<in> {WindowClickEvent False, ListboxRequestClose}.
          (\<forall>e \<in> set (fst (select_step p ev st)). \<not> is_onChange_call e)
        \<and> \<not> visible (snd (select_step p ev st))
        \<and> focused (snd (select_step p ev st)) = focused st
        \<and> selectRef (snd (select_step p ev st)) = selectRef st
        \<and> fixedStyle (snd (select_step p ev st)) = fixedStyle st
        \<and> (\<forall>out. Select p (snd (select_step p ev st)) = Inr out \<longrightarrow>
              listbox_value (listbox out) = value p
            \<and> listbox_onChange (listbox out) = onChange p
            \<and> \<not> listbox_visible (listbox out))"
  proof (intro ballI)
    fix ev :: select_event
    assume "ev \<in> {WindowClickEvent False, ListboxRequestClose}"
    then have "ev = WindowClickEvent False \<or> ev = ListboxRequestClose" by simp
    then show "(\<forall>e \<in> set (fst (select_step p ev st)). \<not> is_onChange_call e)
        \<and> \<not> visible (snd (select_step p ev st))
        \<and> focused (snd (select_step p ev st)) = focused st
        \<and> selectRef (snd (select_step p ev st)) = selectRef st
        \<and> fixedStyle (snd (select_step p ev st)) = fixedStyle st
        \<and> (\<forall>out. Select p (snd (select_step p ev st)) = Inr out \<longrightarrow>
              listbox_value (listbox out) = value p
            \<and> listbox_onChange (listbox out) = onChange p
            \<and> \<not> listbox_visible (listbox out))"
    proof
      assume outside_click: "ev = WindowClickEvent False"
      show ?thesis unfolding outside_click by (rule frame [OF click silent])
    next
      assume request: "ev = ListboxRequestClose"
      show ?thesis unfolding request by (rule frame [OF keyboard quiet])
    qed
  qed
  show ?thesis
    by (intro conjI allI) (rule outside keyboard both)+
qed


theorem Select_close_witness:
  "select_step plain_select (WindowClickEvent False)
      (initial_state\<lparr>visible := True, selectRef := Some 7\<rparr>)
     = ([], initial_state\<lparr>visible := False, selectRef := Some 7\<rparr>)
   \<and> select_step plain_select ListboxRequestClose
      (initial_state\<lparr>visible := True, selectRef := Some 7\<rparr>)
     = ([FocusElement 7], initial_state\<lparr>visible := False, selectRef := Some 7\<rparr>)
   \<and> focused (snd (select_step plain_select ListboxRequestClose
        (initial_state\<lparr>visible := True, selectRef := Some 7\<rparr>))) = False
   \<and> is_onChange_call (CallOnChange (FieldCallback 0) (Str (lit ''b'')) :: (unit, example_callback) effect)"
proof -
  have opened: "visible (initial_state\<lparr>visible := True, selectRef := Some 7\<rparr>)"
    by simp
  note closing = Select_close [OF opened, of plain_select]
  have outside: "\<not> (selectRef (initial_state\<lparr>visible := True, selectRef := Some 7\<rparr>) \<noteq> None
      \<and> False)"
    by simp
  from closing [THEN conjunct1, rule_format, OF outside]
  have click: "select_step plain_select (WindowClickEvent False)
      (initial_state\<lparr>visible := True, selectRef := Some 7\<rparr>)
     = ([], initial_state\<lparr>visible := False, selectRef := Some 7\<rparr>)"
    by simp
  from closing [THEN conjunct2, THEN conjunct1]
  have keyboard: "select_step plain_select ListboxRequestClose
      (initial_state\<lparr>visible := True, selectRef := Some 7\<rparr>)
     = ([FocusElement 7], initial_state\<lparr>visible := False, selectRef := Some 7\<rparr>)"
    by simp
  have call: "is_onChange_call (CallOnChange (FieldCallback 0) (Str (lit ''b'')) :: (unit, example_callback) effect)"
    by (simp add: is_onChange_call_def)
  have "ListboxRequestClose \<in> {WindowClickEvent False, ListboxRequestClose}"
    by simp
  from closing [THEN conjunct2, THEN conjunct2, rule_format, OF this]
  have frame: "focused (snd (select_step plain_select ListboxRequestClose
        (initial_state\<lparr>visible := True, selectRef := Some 7\<rparr>))) = False"
    by (simp add: initial_state_def)
  from click keyboard frame call show ?thesis by (intro conjI)
qed



section \<open>Select: where the selected value lives\<close>

text \<open>
  Claim C3, as it is stated, fails: the select keeps no selected value. When the list
  reports the choice of \<open>b\<close> to a select whose \<open>value\<close> prop is \<open>a\<close>, the select calls
  \<open>onChange\<close> and its state stays as it was, and a render with the same props still
  hands \<open>a\<close> to the list.
\<close>

theorem Select_value_counterexample:
  "select_step plain_select (ListboxChange (Str (lit ''b''))) initial_state
     = ([CallOnChange (FieldCallback 0) (Str (lit ''b''))], initial_state)
   \<and> (\<exists>out. render_Select simple_utils plain_select initial_state = Inr out
         \<and> listbox_value (listbox out) = Str (lit ''a''))"
proof -
  have step: "select_step plain_select (ListboxChange (Str (lit ''b''))) initial_state
     = ([CallOnChange (FieldCallback 0) (Str (lit ''b''))], initial_state)"
    by (simp add: select_step_def plain_select_def)
  obtain out where out: "render_Select simple_utils plain_select initial_state = Inr out"
    using render_Select_defined by blast
  then have "Select (Select_defaultProps simple_utils plain_select) initial_state = Inr out"
    by (simp add: render_Select_def)
  from Select_listbox [OF this]
  have "listbox_value (listbox out) = value (Select_defaultProps simple_utils plain_select)"
    by (rule conjunct1)
  also have "\<dots> = Str (lit ''a'')"
    by (simp add: Select_defaultProps_def plain_select_def)
  finally have shown: "render_Select simple_utils plain_select initial_state = Inr out
         \<and> listbox_value (listbox out) = Str (lit ''a'')"
    using out by (rule conjI [rotated])
  show ?thesis
    by (rule conjI, rule step, rule exI [of _ out], rule shown)
qed

text \<open>
  Claim C3, amended. \<open>Select\<close> is controlled. Every render hands the \<open>value\<close> and the
  \<open>onChange\<close> of its props to the list, whatever its state; a choice in the list calls
  \<open>onChange\<close> with the chosen value and leaves the state of the select, which holds the
  visible flag, the focus flag and the ref, as it is; and no handler of the select reads
  the value. The value is state of the component that renders the select: in
  \<open>SelectExample\<close> it is the \<open>value\<close> of a \<open>useState\<close>, given to the select as a prop and
  set by the \<open>onChange\<close> handler of the demo.
\<close>

theorem Select_value_controlled:
  fixes p :: "('ref, 'o, 'cb, 'other) select_props"
    and field :: "('ref, 'o, example_callback, 'other) select_props"
  shows
    "(\<forall>out. render_Select utils p st = Inr out \<longrightarrow>
        listbox_value (listbox out) = value p
      \<and> listbox_onChange (listbox out) = onChange p
      \<and> floating_label_props.valued (floatingLabel out) = is_valued (value p))
   \<and> select_step p (ListboxChange v) st = ([CallOnChange (onChange p) v], st)
   \<and> (\<forall>ev w. select_step (p\<lparr>value := w\<rparr>) ev st = select_step p ev st)
   \<and> value (SelectExample_select field ex) = Str (example_value ex)
   \<and> onChange (SelectExample_select field ex) = ExampleHandleChange
   \<and> SelectExample_effects
        (fst (select_step (SelectExample_select field ex) (ListboxChange (Str s)) st)) ex
       = ex\<lparr>example_value := s\<rparr>
   \<and> snd (select_step (SelectExample_select field ex) (ListboxChange (Str s)) st) = st
   \<and> value (SelectExample_select field (ex\<lparr>example_value := s\<rparr>)) = Str s"
proof -
  have rendered: "render_Select utils p st = Inr out \<longrightarrow>
        listbox_value (listbox out) = value p
      \<and> listbox_onChange (listbox out) = onChange p
      \<and> floating_label_props.valued (floatingLabel out) = is_valued (value p)" for out
  proof
    assume "render_Select utils p st = Inr out"
    then have out: "Select (Select_defaultProps utils p) st = Inr out"
      by (simp add: render_Select_def)
    have same: "value (Select_defaultProps utils p) = value p"
      "onChange (Select_defaultProps utils p) = onChange p"
      by (simp_all add: Select_defaultProps_def)
    from Select_listbox [OF out] Select_container [OF out]
    show "listbox_value (listbox out) = value p
      \<and> listbox_onChange (listbox out) = onChange p
      \<and> floating_label_props.valued (floatingLabel out) = is_valued (value p)"
      by (simp add: same)
  qed
  have change: "select_step p (ListboxChange v) st = ([CallOnChange (onChange p) v], st)"
    by (simp add: select_step_def)
  have handlers: "select_step (p\<lparr>value := w\<rparr>) ev st = select_step p ev st" for ev w
    by (cases ev)
      (simp_all add: select_step_def handleFocus_def handleBlur_def handleKeyDown_def
        handleClick_def ref_callback_def Let_def)
  have example: "value (SelectExample_select field ex) = Str (example_value ex)"
    "onChange (SelectExample_select field ex) = ExampleHandleChange"
    "value (SelectExample_select field (ex\<lparr>example_value := s\<rparr>)) = Str s"
    by (simp_all add: SelectExample_select_def)
  have effects: "SelectExample_effects
        (fst (select_step (SelectExample_select field ex) (ListboxChange (Str s)) st)) ex
       = ex\<lparr>example_value := s\<rparr>"
    "snd (select_step (SelectExample_select field ex) (ListboxChange (Str s)) st) = st"
    by (simp_all add: select_step_def example(2) handleChange_def)
  show ?thesis
    by (intro conjI allI) (rule rendered change handlers example effects)+
qed


theorem Select_value_controlled_witness:
  "(\<exists>out. render_Select simple_utils (SelectExample_select plain_select SelectExample_initial)
           initial_state = Inr out
       \<and> listbox_value (listbox out) = Str []
       \<and> listbox_onChange (listbox out) = ExampleHandleChange)
   \<and> SelectExample_effects
        (fst (select_step (SelectExample_select plain_select SelectExample_initial)
           (ListboxChange (Str (lit ''Option 2''))) initial_state)) SelectExample_initial
       = \<lparr>example_value = lit ''Option 2'', example_disableMovementChange = False\<rparr>
   \<and> value (SelectExample_select plain_select
        \<lparr>example_value = lit ''Option 2'', example_disableMovementChange = False\<rparr>)
       = Str (lit ''Option 2'')"
proof -
  note controlled = Select_value_controlled [of simple_utils
      "SelectExample_select plain_select SelectExample_initial" initial_state _ plain_select
      SelectExample_initial "lit ''Option 2''"]
  obtain out where out: "render_Select simple_utils
      (SelectExample_select plain_select SelectExample_initial) initial_state = Inr out"
    using render_Select_defined by blast
  from controlled [THEN conjunct1, rule_format, OF out]
  have "listbox_value (listbox out) = Str [] \<and> listbox_onChange (listbox out) = ExampleHandleChange"
    by (simp add: SelectExample_select_def SelectExample_initial_def)
  with out have rendered: "render_Select simple_utils
        (SelectExample_select plain_select SelectExample_initial) initial_state = Inr out
       \<and> listbox_value (listbox out) = Str []
       \<and> listbox_onChange (listbox out) = ExampleHandleChange"
    by (rule conjI)
  have updated: "SelectExample_initial\<lparr>example_value := lit ''Option 2''\<rparr>
      = \<lparr>example_value = lit ''Option 2'', example_disableMovementChange = False\<rparr>"
    by (simp add: SelectExample_initial_def)
  note rest = controlled [THEN conjunct2, THEN conjunct2, THEN conjunct2, THEN conjunct2,
      THEN conjunct2]
  from rest [THEN conjunct1]
  have effects: "SelectExample_effects
        (fst (select_step (SelectExample_select plain_select SelectExample_initial)
           (ListboxChange (Str (lit ''Option 2''))) initial_state)) SelectExample_initial
       = \<lparr>example_value = lit ''Option 2'', example_disableMovementChange = False\<rparr>"
    by (simp only: updated)
  from rest [THEN conjunct2, THEN conjunct2]
  have next_value: "value (SelectExample_select plain_select
        \<lparr>example_value = lit ''Option 2'', example_disableMovementChange = False\<rparr>)
       = Str (lit ''Option 2'')"
    by (simp only: updated)
  show ?thesis
    by (rule conjI, rule exI [of _ out], rule rendered, rule conjI, rule effects, rule next_value)
qed


end
